theory Spec2Isabelle
  imports Main
begin

section \<open>JavaScript values used by the purge script and the connectors\<close>

text \<open>
  Numbers. The code only ever reads whole numbers out of its numeric values (array
  lengths, time values in milliseconds, the arguments of the \<open>Date\<close> constructor, which
  truncates them), so a finite number is kept as its integer part; \<open>NaN\<close> and the two
  infinities are values of their own.
\<close>

datatype jsnum = NaN | NegInf | Fin int | PosInf

datatype jsval = JUndefined | JNull | JBool bool | JNum jsnum | JStr string

text \<open>\<open>ToBoolean\<close>: what \<open>x || y\<close> tests.\<close>

fun truthy :: "jsval \<Rightarrow> bool" where
  "truthy JUndefined = False"
| "truthy JNull = False"
| "truthy (JBool b) = b"
| "truthy (JNum n) = (n \<noteq> NaN \<and> n \<noteq> Fin 0)"
| "truthy (JStr s) = (s \<noteq> [])"

text \<open>\<open>x - y\<close> on numbers (IEEE: \<open>Infinity - Infinity\<close> is \<open>NaN\<close>).\<close>

fun js_minus :: "jsnum \<Rightarrow> jsnum \<Rightarrow> jsnum" where
  "js_minus NaN _ = NaN"
| "js_minus _ NaN = NaN"
| "js_minus (Fin a) (Fin b) = Fin (a - b)"
| "js_minus (Fin a) PosInf = NegInf"
| "js_minus (Fin a) NegInf = PosInf"
| "js_minus PosInf PosInf = NaN"
| "js_minus PosInf _ = PosInf"
| "js_minus NegInf NegInf = NaN"
| "js_minus NegInf _ = NegInf"

fun js_isNaN :: "jsnum \<Rightarrow> bool" where
  "js_isNaN NaN = True"
| "js_isNaN _ = False"

text \<open>The position of the first occurrence of an element in a list.\<close>

fun index_of :: "'a \<Rightarrow> 'a list \<Rightarrow> nat option" where
  "index_of x [] = None"
| "index_of x (y # ys) =
     (if x = y then Some 0 else case index_of x ys of None \<Rightarrow> None | Some i \<Rightarrow> Some (Suc i))"

text \<open>
  \<open>String.prototype.toLowerCase\<close> on the code units \<open>A\<close> to \<open>Z\<close>; every other code unit
  of the 8-bit character type is left alone (no code unit outside \<open>A\<close>-\<open>Z\<close> is mapped to
  an ASCII letter by JavaScript either).
\<close>

definition lower_char :: "char \<Rightarrow> char" where
  "lower_char c =
     (case index_of c ''ABCDEFGHIJKLMNOPQRSTUVWXYZ'' of
        None \<Rightarrow> c
      | Some i \<Rightarrow> ''abcdefghijklmnopqrstuvwxyz'' ! i)"

definition toLowerCase :: "string \<Rightarrow> string" where
  "toLowerCase s = map lower_char s"

text \<open>
  \<open>slice(start, end)\<close> of strings and arrays: a negative index counts from the end, both
  indices are clamped to the length; \<open>slice(start)\<close> runs to the end.
\<close>

definition slice_index :: "nat \<Rightarrow> int \<Rightarrow> nat" where
  "slice_index len i = (if i < 0 then nat (max (int len + i) 0) else min (nat i) len)"

definition js_slice :: "'a list \<Rightarrow> int \<Rightarrow> int \<Rightarrow> 'a list" where
  "js_slice xs start end =
     (let k = slice_index (length xs) start; e = slice_index (length xs) end
      in take (e - k) (drop k xs))"

definition js_slice_from :: "'a list \<Rightarrow> int \<Rightarrow> 'a list" where
  "js_slice_from xs start = drop (slice_index (length xs) start) xs"

text \<open>Number to string, for the array lengths the script prints.\<close>

definition digit_char :: "nat \<Rightarrow> char" where
  "digit_char d = ''0123456789'' ! d"

function show_nat :: "nat \<Rightarrow> string" where
  "show_nat n = (if n < 10 then [digit_char n] else show_nat (n div 10) @ [digit_char (n mod 10)])"
  by pat_completeness auto
termination
  by (relation "measure id") auto

declare show_nat.simps [simp del]

text \<open>
  A \<open>Date\<close> object is its time value: milliseconds since the epoch, or \<open>NaN\<close> for an
  invalid date. \<open>getTime\<close> reads it.
\<close>

datatype Date = Date (getTime: jsnum)

section \<open>purgeScript.js: the dry-run control\<close>

text \<open>
  \<^verbatim>\<open>let dryrun = process.env.DRYRUN || true;\<close> followed by the \<open>typeof dryrun === 'string'\<close>
  block. The argument is the value of \<open>process.env.DRYRUN\<close> (\<open>JUndefined\<close> when unset).
\<close>

definition dryrun_init :: "jsval \<Rightarrow> jsval" where
  "dryrun_init env =
     (let dryrun = (if truthy env then env else JBool True)
      in case dryrun of
           JStr s \<Rightarrow> (if toLowerCase s = ''false'' then JBool False else JBool True)
         | _ \<Rightarrow> dryrun)"

text \<open>The script deletes for real exactly under the test \<^verbatim>\<open>dryrun === false\<close>.\<close>

definition liveMode :: "jsval \<Rightarrow> bool" where
  "liveMode dryrun = (dryrun = JBool False)"

section \<open>purgeScript.js: the purge of one installation\<close>

definition quantity :: nat where
  "quantity = 30"

text \<open>
  A backup object \<^verbatim>\<open>{name, date, filesource}\<close>; \<open>date\<close> is \<open>None\<close> for \<open>undefined\<close>
  (the date calculation was rejected).
\<close>

record backup =
  name :: string
  date :: "Date option"
  filesource :: string

text \<open>A task \<^verbatim>\<open>{currentInstallation, path, filesource}\<close> pushed to the queue.\<close>

datatype purge_task =
  PurgeTask (currentInstallation: string) (path: string) (task_filesource: string)

text \<open>
  \<^verbatim>\<open>backupObjects.forEach(function (currentBackupObject, i) { ... splice(i, 1) ... })\<close>.
  \<open>forEach\<close> reads the length once, before the first call, and then visits the indices
  \<open>0 .. len - 1\<close> in order, skipping an index that is no longer present in the array;
  the callback removes the visited element in place when its date is undefined, which
  moves every later element one index down.
\<close>

function forEach_splice ::
  "jsval \<Rightarrow> nat \<Rightarrow> nat \<Rightarrow> backup list \<Rightarrow> backup list \<Rightarrow> backup list \<times> backup list" where
  "forEach_splice dryrun len k backupsToKeep backupObjects =
     (if k < len then
        (if k < length backupObjects \<and> date (backupObjects ! k) = None then
           forEach_splice dryrun len (Suc k)
             (if dryrun \<noteq> JBool False then backupsToKeep @ [backupObjects ! k]
              else backupsToKeep)
             (take k backupObjects @ drop (Suc k) backupObjects)
         else forEach_splice dryrun len (Suc k) backupsToKeep backupObjects)
      else (backupsToKeep, backupObjects))"
  by pat_completeness auto
termination
  by (relation "measure (\<lambda>(dryrun, len, k, keep, objs). len - k)") auto

declare forEach_splice.simps [simp del]

text \<open>
  The comparator of the sort: \<open>getTime()\<close> of the date, replaced by \<open>Infinity\<close> when
  \<open>a.date\<close> is undefined (the call throws, the \<open>catch\<close> assigns) or the time is \<open>NaN\<close>.
\<close>

definition sortTime :: "backup \<Rightarrow> jsnum" where
  "sortTime b =
     (case date b of
        None \<Rightarrow> PosInf
      | Some d \<Rightarrow> (if js_isNaN (getTime d) then PosInf else getTime d))"

definition compareFn :: "backup \<Rightarrow> backup \<Rightarrow> jsnum" where
  "compareFn a b = js_minus (sortTime a) (sortTime b)"

text \<open>
  \<open>Array.prototype.sort\<close> with a comparator: the sort is stable, \<open>a\<close> goes after \<open>b\<close>
  exactly when the comparator's result is positive (\<open>NaN\<close> counts as \<open>0\<close>). Written as
  an insertion sort.
\<close>

fun js_positive :: "jsnum \<Rightarrow> bool" where
  "js_positive (Fin v) = (0 < v)"
| "js_positive PosInf = True"
| "js_positive _ = False"

fun insort_cmp :: "('a \<Rightarrow> 'a \<Rightarrow> jsnum) \<Rightarrow> 'a \<Rightarrow> 'a list \<Rightarrow> 'a list" where
  "insort_cmp cmp x [] = [x]"
| "insort_cmp cmp x (y # ys) =
     (if js_positive (cmp x y) then y # insort_cmp cmp x ys else x # y # ys)"

definition Array_sort :: "('a \<Rightarrow> 'a \<Rightarrow> jsnum) \<Rightarrow> 'a list \<Rightarrow> 'a list" where
  "Array_sort cmp xs = foldr (insort_cmp cmp) xs []"

text \<open>
  What one run of the \<open>Promise.all(promises).then\<close> callback leaves behind: the two
  lists of its plan, the tasks it pushes to the queue, and the lines it prints itself
  (the worker prints the outcome of each \<open>deleteAll\<close> and the drain callback prints
  \<open>Purge complete\<close> after the callback has returned).
\<close>

record purge_result =
  backupsToDelete :: "backup list"
  backupsToKeep :: "backup list"
  deleteBackups :: "purge_task list"
  console :: "string list"

definition excludeUnsortable :: "jsval \<Rightarrow> backup list \<Rightarrow> backup list \<times> backup list" where
  "excludeUnsortable dryrun resolved = forEach_splice dryrun (length resolved) 0 [] resolved"

definition purgeInstallation :: "jsval \<Rightarrow> string \<Rightarrow> backup list \<Rightarrow> purge_result" where
  "purgeInstallation dryrun inst resolved =
     (let (keep0, backupObjects) = excludeUnsortable dryrun resolved
      in if length backupObjects \<le> quantity then
           \<lparr>backupsToDelete = [], backupsToKeep = keep0, deleteBackups = [],
            console = [inst @ '': Not enough backups to purge'']\<rparr>
         else
           let sorted = Array_sort compareFn backupObjects;
               toDelete = js_slice sorted 0 (- int quantity);
               toKeep = (if dryrun \<noteq> JBool False
                         then keep0 @ js_slice_from sorted (- int quantity) else keep0)
           in if dryrun = JBool False then
                \<lparr>backupsToDelete = toDelete, backupsToKeep = toKeep,
                 deleteBackups =
                   map (\<lambda>currentBackup.
                          PurgeTask inst (''backups/'' @ name currentBackup)
                            (filesource currentBackup)) toDelete,
                 console = []\<rparr>
              else
                \<lparr>backupsToDelete = toDelete, backupsToKeep = toKeep, deleteBackups = [],
                 console =
                   [inst @ '': Dryrun wants to delete '' @ show_nat (length toDelete)
                      @ '' backups:'']
                   @ map (\<lambda>b. ''Delete: '' @ name b @ '', filesource: '' @ filesource b)
                       toDelete
                   @ [inst @ '': Dryrun wants to keep '' @ show_nat (length toKeep)
                      @ '' backups'']
                   @ map (\<lambda>b. ''Keep: '' @ name b @ '', filesource: '' @ filesource b)
                       toKeep\<rparr>)"

text \<open>
  The queue's worker calls \<open>FileUtils.deleteAll(task.currentInstallation, task.path,
  task.filesource)\<close> once for every task pushed by \<open>itemQueue.push(deleteBackups)\<close>.
\<close>

definition deleteAll_calls :: "purge_result \<Rightarrow> (string \<times> string \<times> string) list" where
  "deleteAll_calls r =
     map (\<lambda>task. (currentInstallation task, path task, task_filesource task))
       (deleteBackups r)"

text \<open>
  Thirty dated backups, one per day, followed by two backups whose date calculation was
  rejected.
\<close>

definition dated :: "nat \<Rightarrow> backup" where
  "dated k =
     \<lparr>name = ''b'' @ show_nat k, date = Some (Date (Fin (int k * 86400000))),
      filesource = ''fs''\<rparr>"

definition undated :: "string \<Rightarrow> backup" where
  "undated n = \<lparr>name = n, date = None, filesource = ''fs''\<rparr>"

definition thirty_dated_two_undated :: "backup list" where
  "thirty_dated_two_undated = map dated [1 ..< 31] @ [undated ''x'', undated ''y'']"

section \<open>Promises\<close>

text \<open>
  A promise executor calls \<open>resolve\<close> and \<open>reject\<close> any number of times; the first call
  settles the promise and the later ones do nothing. A promise nobody settles stays
  pending. Rejection values are bare strings, \<open>Error\<close> objects (an \<open>Error\<close> may carry a
  \<open>failedItems\<close> list), the runtime's \<open>TypeError\<close>, and opaque errors of a provider SDK.
\<close>

datatype jserror =
  RejectString string
| Error string
| ErrorWithItems string "string list"
| TypeError string
| ProviderError string

datatype 'a attempt = Resolve 'a | Reject jserror

datatype 'a promise = Pending | Fulfilled 'a | RejectedWith jserror

definition settle :: "'a attempt list \<Rightarrow> 'a promise" where
  "settle attempts =
     (case attempts of
        [] \<Rightarrow> Pending
      | Resolve v # _ \<Rightarrow> Fulfilled v
      | Reject e # _ \<Rightarrow> RejectedWith e)"

section \<open>The built-ins behind \<open>calculateDate\<close>\<close>

definition is_digit :: "char \<Rightarrow> bool" where
  "is_digit c = (c \<in> set ''0123456789'')"

text \<open>
  White space and line terminators among the 8-bit code units: tab, line feed, vertical
  tab, form feed, carriage return, space, no-break space.
\<close>

definition is_whitespace :: "char \<Rightarrow> bool" where
  "is_whitespace c =
     (c \<in> set [CHR 0x09, CHR 0x0A, CHR 0x0B, CHR 0x0C, CHR 0x0D, CHR 0x20, CHR 0xA0])"

definition radix_digit :: "char \<Rightarrow> int option" where
  "radix_digit c =
     (case index_of c ''0123456789abcdefghijklmnopqrstuvwxyz'' of
        Some i \<Rightarrow> Some (int i)
      | None \<Rightarrow>
          (case index_of c ''ABCDEFGHIJKLMNOPQRSTUVWXYZ'' of
             Some i \<Rightarrow> Some (int i + 10)
           | None \<Rightarrow> None))"

definition digit_in_radix :: "int \<Rightarrow> char \<Rightarrow> bool" where
  "digit_in_radix R c = (case radix_digit c of None \<Rightarrow> False | Some v \<Rightarrow> v < R)"

definition radix_value :: "int \<Rightarrow> string \<Rightarrow> int" where
  "radix_value R Z = foldl (\<lambda>acc c. acc * R + (case radix_digit c of None \<Rightarrow> 0 | Some v \<Rightarrow> v)) 0 Z"

text \<open>
  \<open>parseInt(string)\<close> without a radix: leading white space is dropped, then a sign, then
  a \<open>0x\<close> prefix selects radix 16; the longest prefix of digits is read and the rest of
  the string is ignored; no digit at all gives \<open>NaN\<close>.
\<close>

definition parseInt :: "string \<Rightarrow> jsnum" where
  "parseInt string =
     (let S = dropWhile is_whitespace string;
          sign = (if S \<noteq> [] \<and> hd S = CHR ''-'' then - 1 else (1::int));
          S1 = (if S \<noteq> [] \<and> (hd S = CHR ''+'' \<or> hd S = CHR ''-'') then tl S else S);
          hex = (2 \<le> length S1 \<and> (take 2 S1 = ''0x'' \<or> take 2 S1 = ''0X''));
          R = (if hex then 16 else 10);
          S2 = (if hex then drop 2 S1 else S1);
          Z = takeWhile (digit_in_radix R) S2
      in if Z = [] then NaN else Fin (sign * radix_value R Z))"

text \<open>
  \<open>ToNumber\<close> of a string (the \<open>StringNumericLiteral\<close> grammar): white space is trimmed at
  both ends, the empty string is \<open>0\<close>, then either a \<open>0x\<close>/\<open>0o\<close>/\<open>0b\<close> literal or an
  optionally signed decimal literal with optional fraction and exponent, or \<open>Infinity\<close>;
  anything else is \<open>NaN\<close>. The value is kept as its integer part (truncated towards
  zero); a magnitude that rounds beyond the largest double is an infinity.
\<close>

definition trim :: "string \<Rightarrow> string" where
  "trim s = rev (dropWhile is_whitespace (rev (dropWhile is_whitespace s)))"

definition round_inf :: "int \<Rightarrow> jsnum" where
  "round_inf v = (if 2 ^ 1024 - 2 ^ 970 \<le> v then PosInf else Fin v)"

definition scale10 :: "int \<Rightarrow> int \<Rightarrow> int" where
  "scale10 N k = (if 0 \<le> k then N * 10 ^ nat k else N div 10 ^ nat (- k))"

definition exponent_part :: "string \<Rightarrow> int option" where
  "exponent_part s =
     (if s = [] then Some 0
      else if hd s = CHR ''e'' \<or> hd s = CHR ''E'' then
        (let r = tl s;
             neg = (r \<noteq> [] \<and> hd r = CHR ''-'');
             ds = (if r \<noteq> [] \<and> (hd r = CHR ''+'' \<or> hd r = CHR ''-'') then tl r else r)
         in if ds \<noteq> [] \<and> list_all is_digit ds
            then Some ((if neg then - 1 else 1) * radix_value 10 ds) else None)
      else None)"

definition unsigned_decimal :: "string \<Rightarrow> jsnum" where
  "unsigned_decimal s =
     (if s = ''Infinity'' then PosInf
      else
        let ip = takeWhile is_digit s;
            r = dropWhile is_digit s;
            dot = (r \<noteq> [] \<and> hd r = CHR ''.'');
            fp = (if dot then takeWhile is_digit (tl r) else []);
            r' = (if dot then dropWhile is_digit (tl r) else r)
        in if ip = [] \<and> fp = [] then NaN
           else case exponent_part r' of
                  None \<Rightarrow> NaN
                | Some e \<Rightarrow> round_inf (scale10 (radix_value 10 (ip @ fp)) (e - int (length fp))))"

fun js_negate :: "jsnum \<Rightarrow> jsnum" where
  "js_negate NaN = NaN"
| "js_negate NegInf = PosInf"
| "js_negate (Fin v) = Fin (- v)"
| "js_negate PosInf = NegInf"

definition nondecimal_literal :: "string \<Rightarrow> jsnum option" where
  "nondecimal_literal s =
     (if 2 < length s \<and> hd s = CHR ''0'' then
        (let p = s ! 1;
             R = (if p = CHR ''x'' \<or> p = CHR ''X'' then Some 16
                  else if p = CHR ''o'' \<or> p = CHR ''O'' then Some 8
                  else if p = CHR ''b'' \<or> p = CHR ''B'' then Some (2::int)
                  else None)
         in case R of
              None \<Rightarrow> None
            | Some r \<Rightarrow>
                if list_all (digit_in_radix r) (drop 2 s)
                then Some (round_inf (radix_value r (drop 2 s))) else None)
      else None)"

definition StringToNumber :: "string \<Rightarrow> jsnum" where
  "StringToNumber s =
     (let t = trim s
      in if t = [] then Fin 0
         else case nondecimal_literal t of
                Some v \<Rightarrow> v
              | None \<Rightarrow>
                  if hd t = CHR ''-'' then js_negate (unsigned_decimal (tl t))
                  else if hd t = CHR ''+'' then unsigned_decimal (tl t)
                  else unsigned_decimal t)"

fun ToNumber :: "jsval \<Rightarrow> jsnum" where
  "ToNumber JUndefined = NaN"
| "ToNumber JNull = Fin 0"
| "ToNumber (JBool b) = Fin (if b then 1 else 0)"
| "ToNumber (JNum n) = n"
| "ToNumber (JStr s) = StringToNumber s"

text \<open>
  \<open>new Date(year, month, day)\<close>. A year from 0 to 99 means 1900 + year; \<open>MakeDay\<close> carries
  a month outside \<open>0..11\<close> into the year and adds the day of the month to the first of
  that month without any range check, so an out-of-range month or day lands in a
  neighbouring month or year. The date is a local one; the local time zone is taken to
  be UTC, so that the time value is the day number times the milliseconds of a day.
\<close>

definition DayFromYear :: "int \<Rightarrow> int" where
  "DayFromYear y =
     365 * (y - 1970) + (y - 1969) div 4 - (y - 1901) div 100 + (y - 1601) div 400"

definition InLeapYear :: "int \<Rightarrow> bool" where
  "InLeapYear y = ((y mod 4 = 0 \<and> y mod 100 \<noteq> 0) \<or> y mod 400 = 0)"

definition month_start :: "int \<Rightarrow> nat \<Rightarrow> int" where
  "month_start y mn =
     [0, 31, 59, 90, 120, 151, 181, 212, 243, 273, 304, 334] ! mn
       + (if InLeapYear y \<and> 2 \<le> mn then 1 else 0)"

definition MakeDay :: "jsnum \<Rightarrow> jsnum \<Rightarrow> jsnum \<Rightarrow> jsnum" where
  "MakeDay year month dt =
     (case (year, month, dt) of
        (Fin y, Fin m, Fin d) \<Rightarrow>
          (let ym = y + m div 12; mn = m mod 12
           in Fin (DayFromYear ym + month_start ym (nat mn) + d - 1))
      | _ \<Rightarrow> NaN)"

definition msPerDay :: int where
  "msPerDay = 86400000"

definition MakeDate :: "jsnum \<Rightarrow> int \<Rightarrow> jsnum" where
  "MakeDate day time = (case day of Fin d \<Rightarrow> Fin (d * msPerDay + time) | _ \<Rightarrow> NaN)"

definition TimeClip :: "jsnum \<Rightarrow> jsnum" where
  "TimeClip t =
     (case t of Fin v \<Rightarrow> (if 8640000000000000 < \<bar>v\<bar> then NaN else Fin v) | _ \<Rightarrow> NaN)"

definition new_Date :: "jsval \<Rightarrow> jsval \<Rightarrow> jsval \<Rightarrow> Date" where
  "new_Date year month day =
     (let y = ToNumber year; m = ToNumber month; dt = ToNumber day;
          yr = (case y of Fin yi \<Rightarrow> (if 0 \<le> yi \<and> yi \<le> 99 then Fin (1900 + yi) else y)
                | _ \<Rightarrow> y)
      in Date (TimeClip (MakeDate (MakeDay yr m dt) 0)))"

section \<open>amazon-s3-utils: \<open>calculateDate\<close>\<close>

text \<open>
  The executor of the promise. In the \<open>else\<close> branch \<open>reject\<close> is called and the function
  goes on with \<open>year\<close>, \<open>month\<close> and \<open>day\<close> undefined; the \<open>throw\<close> is caught by the
  \<open>catch\<close>, whose \<open>reject\<close> comes second there.
\<close>

definition calculateDate :: "string \<Rightarrow> Date promise" where
  "calculateDate backupName =
     (let (year, month, day, early) =
            (if length backupName = 14 then
               (JStr (js_slice backupName 4 8),
                JNum (js_minus (parseInt (js_slice backupName 0 2)) (Fin 1)),
                JStr (js_slice backupName 2 4), [])
             else if length backupName = 35 then
               (JStr (js_slice backupName 0 4),
                JNum (js_minus (parseInt (js_slice backupName 4 6)) (Fin 1)),
                JStr (js_slice backupName 6 8), [])
             else
               (JUndefined, JUndefined, JUndefined,
                [Reject (RejectString
                   (''calculateDate Error: Invalid backup name length for backup ''
                      @ backupName))]));
          date = new_Date year month day
      in settle (early @
           (if js_isNaN (getTime date) then [Reject (Error ''Invalid date'')]
            else [Resolve date])))"

text \<open>
  The calendar of the specification: a month from 1 to 12 and a day that exists in
  that month.
\<close>

definition days_in_month :: "int \<Rightarrow> int \<Rightarrow> int" where
  "days_in_month y m =
     (if m = 2 then (if InLeapYear y then 29 else 28)
      else if m \<in> {4, 6, 9, 11} then 30 else 31)"

definition valid_calendar_date :: "int \<Rightarrow> int \<Rightarrow> int \<Rightarrow> bool" where
  "valid_calendar_date y m d = (1 \<le> m \<and> m \<le> 12 \<and> 1 \<le> d \<and> d \<le> days_in_month y m)"

text \<open>The decimal number written by a string of digits.\<close>

definition decimal :: "string \<Rightarrow> int" where
  "decimal ds = radix_value 10 ds"

section \<open>amazon-s3-utils: listing, deleting\<close>

text \<open>
  The credentials of a filesource. \<open>cred_bucket\<close> is \<open>None\<close> when the credentials have no
  \<open>bucket\<close> property (\<^verbatim>\<open>'bucket' in credentials\<close> is false): the installation then has a
  bucket of its own; otherwise the installations share the bucket named there.
  \<open>cred_version\<close> is \<open>JUndefined\<close> when absent.
\<close>

record credentials =
  cred_bucket :: "jsval option"
  cred_version :: jsval

text \<open>One entry of \<open>Versions\<close> or \<open>DeleteMarkers\<close>.\<close>

record s3_object =
  Key :: string
  VersionId :: string
  IsLatest :: bool

text \<open>
  The parameters and the response of \<open>ListObjectVersionsCommand\<close>. A response property
  is \<open>None\<close> when the response does not have it (\<open>hasOwnProperty\<close> is false).
\<close>

record list_request =
  Bucket :: jsval
  Prefix :: string
  KeyMarker :: "string option"

record list_response =
  Versions :: "s3_object list option"
  DeleteMarkers :: "s3_object list option"
  IsTruncated :: bool

record listing =
  ret_Versions :: "s3_object list"
  ret_DeleteMarkers :: "s3_object list"

text \<open>
  The \<open>while (truncated)\<close> loop of \<open>listFileVersions\<close>. \<open>send n params\<close> is the answer of
  the provider to the \<open>n\<close>-th \<open>ListObjectVersionsCommand\<close> of this listing. The \<open>catch\<close>
  ends the loop and rejects; it also catches the \<open>TypeError\<close> of
  \<^verbatim>\<open>response.Versions.slice(-1)[0].Key\<close> when the response has no \<open>Versions\<close> or an empty
  one. A provider that answers \<open>IsTruncated\<close> for ever keeps the loop running: the
  function then has no value (\<open>None\<close>).
\<close>

partial_function (option) listLoop ::
  "(nat \<Rightarrow> list_request \<Rightarrow> jserror + list_response) \<Rightarrow> nat \<Rightarrow> list_request \<Rightarrow> listing
     \<Rightarrow> listing promise option" where
  "listLoop send n bucketParams returnObject =
     (case send n bucketParams of
        Inl err \<Rightarrow> Some (RejectedWith err)
      | Inr response \<Rightarrow>
          (let returnObject' =
                 \<lparr>ret_Versions =
                    (case Versions response of
                       None \<Rightarrow> ret_Versions returnObject
                     | Some vs \<Rightarrow> ret_Versions returnObject @ vs),
                  ret_DeleteMarkers =
                    (case DeleteMarkers response of
                       None \<Rightarrow> ret_DeleteMarkers returnObject
                     | Some ms \<Rightarrow> ret_DeleteMarkers returnObject @ ms)\<rparr>
           in if IsTruncated response then
                (case Versions response of
                   None \<Rightarrow>
                     Some (RejectedWith (TypeError
                       ''Cannot read properties of undefined (reading 'slice')''))
                 | Some vs \<Rightarrow>
                     if vs = [] then
                       Some (RejectedWith (TypeError
                         ''Cannot read properties of undefined (reading 'Key')''))
                     else
                       listLoop send (Suc n) (bucketParams\<lparr>KeyMarker := Some (Key (last vs))\<rparr>)
                         returnObject')
              else Some (Fulfilled returnObject')))"

declare listLoop.simps [code]

definition s3_listFileVersions ::
  "(nat \<Rightarrow> list_request \<Rightarrow> jserror + list_response) \<Rightarrow> string \<Rightarrow> string \<Rightarrow> credentials
     \<Rightarrow> listing promise option" where
  "s3_listFileVersions send bucketName folder creds =
     listLoop send 0
       (case cred_bucket creds of
          None \<Rightarrow> \<lparr>Bucket = JStr bucketName, Prefix = folder, KeyMarker = None\<rparr>
        | Some b \<Rightarrow> \<lparr>Bucket = b, Prefix = bucketName @ ''/'' @ folder, KeyMarker = None\<rparr>)
       \<lparr>ret_Versions = [], ret_DeleteMarkers = []\<rparr>"

text \<open>The parameters of \<open>DeleteObjectCommand\<close>.\<close>

datatype delete_params =
  DeleteParams (del_Bucket: string) (del_Key: string) (del_VersionId: jsval)

text \<open>
  \<open>deleteObjectVersion\<close>. \<open>send\<close> is the answer of the provider to the
  \<open>DeleteObjectCommand\<close>: \<open>None\<close> when the object version was deleted, the error otherwise.
  The result is \<open>Inr\<close> of the message the promise resolves with, or \<open>Inl\<close> of what it is
  rejected with.
\<close>

definition s3_deleteObjectVersion ::
  "(delete_params \<Rightarrow> jserror option) \<Rightarrow> string \<Rightarrow> string \<Rightarrow> jsval \<Rightarrow> credentials
     \<Rightarrow> jserror + string" where
  "s3_deleteObjectVersion send bucketName filePath versionId creds =
     (let checked =
            (case cred_bucket creds of
               None \<Rightarrow> Inr (DeleteParams bucketName filePath versionId)
             | Some (JStr b) \<Rightarrow>
                 if 0 < length b then Inr (DeleteParams b filePath versionId)
                 else Inl (RejectString
                   (''Invalid bucket credentials recieved while deleting object ''
                      @ bucketName @ ''/'' @ filePath))
             | Some _ \<Rightarrow>
                 Inl (RejectString
                   (''Invalid bucket credentials recieved while deleting object ''
                      @ bucketName @ ''/'' @ filePath)))
      in case checked of
           Inl e \<Rightarrow> Inl e
         | Inr deleteParams \<Rightarrow>
             (case send deleteParams of
                None \<Rightarrow>
                  Inr (''Deleted '' @ del_Bucket deleteParams @ ''/'' @ del_Key deleteParams)
              | Some error \<Rightarrow> Inl error))"

section \<open>The deletion queue of \<open>deleteAll\<close>\<close>

text \<open>
  A task \<^verbatim>\<open>{bucketName, path, versionId, credentials}\<close>, and an entry of \<open>failedItems\<close>: the
  code stores the JSON text of \<^verbatim>\<open>{bucket, path, version, error}\<close>, kept here as the
  four values. A version id is a string in S3 and a number (the generation) in GCS.
\<close>

datatype delete_task =
  DeleteTask (task_bucketName: string) (task_path: string) (task_versionId: jsval)
    (task_credentials: credentials)

datatype failed_item =
  FailedItem (failed_bucket: string) (failed_path: string) (failed_version: jsval)
    (failed_error: jserror)

text \<open>
  The worker of the queue: one \<open>deleteObjectVersion\<close> per task; a success increments
  \<open>itemsDeletedCount\<close>, a failure appends to \<open>failedItems\<close>; both call \<open>done()\<close>. The
  queue runs up to 100 workers at a time; their effects on the two accumulators are
  taken in the order of the tasks. The drain callback runs when every task is done.
\<close>

definition queue_worker ::
  "(delete_task \<Rightarrow> jserror + string) \<Rightarrow> nat \<times> failed_item list \<Rightarrow> delete_task
     \<Rightarrow> nat \<times> failed_item list" where
  "queue_worker deleteObjectVersion acc task =
     (case deleteObjectVersion task of
        Inr _ \<Rightarrow> (Suc (fst acc), snd acc)
      | Inl error \<Rightarrow>
          (fst acc,
           snd acc @ [FailedItem (task_bucketName task) (task_path task) (task_versionId task)
                        error]))"

definition run_queue ::
  "(delete_task \<Rightarrow> jserror + string) \<Rightarrow> delete_task list \<Rightarrow> nat \<times> failed_item list" where
  "run_queue deleteObjectVersion items = foldl (queue_worker deleteObjectVersion) (0, []) items"

text \<open>\<open>'...' + error\<close>: the text of an error value.\<close>

fun error_text :: "jserror \<Rightarrow> string" where
  "error_text (RejectString s) = s"
| "error_text (Error m) = ''Error: '' @ m"
| "error_text (ErrorWithItems m items) = ''Error: '' @ m"
| "error_text (TypeError m) = ''TypeError: '' @ m"
| "error_text (ProviderError m) = m"

text \<open>
  What a run of \<open>deleteAll\<close> leaves behind: the state of the promise it returned, the
  bucket deletions it sent, the exceptions nobody caught, and the two accumulators when
  the queue drained.
\<close>

record deleteAll_outcome =
  result :: "string promise"
  bucketDeletions :: "string list"
  uncaught :: "jserror list"
  itemsDeletedCount :: nat
  failedItems :: "failed_item list"

definition not_started :: "string promise \<Rightarrow> deleteAll_outcome" where
  "not_started r =
     \<lparr>result = r, bucketDeletions = [], uncaught = [], itemsDeletedCount = 0,
      failedItems = []\<rparr>"

text \<open>
  The last statement of both drain callbacks. With failures, the message of the \<open>Error\<close>
  is built from \<^verbatim>\<open>failedItems.substring(0, 10)\<close>; \<open>failedItems\<close> is an array, which has no
  \<open>substring\<close>, so the call throws a \<open>TypeError\<close> before the \<open>Error\<close> exists and before
  \<open>reject\<close> is reached. The callback is an \<open>async\<close> function: the exception rejects the
  promise of the callback, which nobody reads. The result is the calls of \<open>resolve\<close> and
  \<open>reject\<close> made, and the exceptions thrown.
\<close>

definition drain_report ::
  "string \<Rightarrow> string \<Rightarrow> nat \<Rightarrow> failed_item list \<Rightarrow> string attempt list \<times> jserror list" where
  "drain_report bucketName folder deleted failed =
     (if length failed = 0 then
        ([Resolve (''Deleted '' @ show_nat deleted @ '' objects from '' @ bucketName @ ''/''
                     @ folder)], [])
      else ([], [TypeError ''failedItems.substring is not a function'']))"

text \<open>
  The provider as \<open>deleteAll\<close> of the S3 connector sees it: the answers to the listing
  before the deletions, to the listing after them, to each \<open>DeleteObjectCommand\<close> and to
  the \<open>DeleteBucketCommand\<close>.
\<close>

record s3_provider =
  listSend :: "nat \<Rightarrow> list_request \<Rightarrow> jserror + list_response"
  relistSend :: "nat \<Rightarrow> list_request \<Rightarrow> jserror + list_response"
  deleteSend :: "delete_params \<Rightarrow> jserror option"
  deleteBucketSend :: "string \<Rightarrow> jserror option"

text \<open>
  The drain callback of the S3 \<open>deleteAll\<close>. The re-listing of the root is started first
  and answers later, so the calls of \<open>resolve\<close> and \<open>reject\<close> of the last statement come
  before those of the re-listing. \<open>relist\<close> is \<open>None\<close> when there is no re-listing (the
  folder is not the root) or when the re-listing never answers.
\<close>

definition s3_drain ::
  "s3_provider \<Rightarrow> string \<Rightarrow> string \<Rightarrow> credentials \<Rightarrow> nat \<Rightarrow> failed_item list
     \<Rightarrow> deleteAll_outcome" where
  "s3_drain p bucketName folder creds deleted failed =
     (let relist = (if folder = [] then s3_listFileVersions (relistSend p) bucketName [] creds
                    else None);
          deleteBucket =
            (case relist of
               Some (Fulfilled remainingFiles) \<Rightarrow>
                 length (ret_Versions remainingFiles) + length (ret_DeleteMarkers remainingFiles)
                   = 0 \<and> cred_bucket creds = None
             | _ \<Rightarrow> False);
          later =
            (case relist of
               Some (Fulfilled remainingFiles) \<Rightarrow>
                 if deleteBucket then
                   (case deleteBucketSend p bucketName of
                      None \<Rightarrow>
                        [Resolve (''Deleted '' @ show_nat deleted @ '' objects from ''
                           @ bucketName @ ''/'' @ folder @ '' and deleted bucket successfully'')]
                    | Some error \<Rightarrow>
                        [Reject (RejectString (''Deleted '' @ show_nat deleted
                           @ '' objects from '' @ bucketName @ ''/'' @ folder
                           @ '', but experienced error deleting bucket: '' @ error_text error))])
                 else []
             | Some (RejectedWith error) \<Rightarrow> [Reject error]
             | _ \<Rightarrow> []);
          now = drain_report bucketName folder deleted failed
      in \<lparr>result = settle (fst now @ later),
          bucketDeletions = (if deleteBucket then [bucketName] else []),
          uncaught = snd now,
          itemsDeletedCount = deleted,
          failedItems = failed\<rparr>)"

definition s3_deleteAll ::
  "s3_provider \<Rightarrow> string \<Rightarrow> string \<Rightarrow> credentials \<Rightarrow> deleteAll_outcome" where
  "s3_deleteAll p bucketName folder creds =
     (case s3_listFileVersions (listSend p) bucketName folder creds of
        None \<Rightarrow> not_started Pending
      | Some Pending \<Rightarrow> not_started Pending
      | Some (RejectedWith error) \<Rightarrow> not_started (RejectedWith error)
      | Some (Fulfilled files) \<Rightarrow>
          (let items =
                 map (\<lambda>curFile. DeleteTask bucketName (Key curFile) (JStr (VersionId curFile)) creds)
                   (ret_Versions files)
                 @ map (\<lambda>curDeleteMarker.
                          DeleteTask bucketName (Key curDeleteMarker)
                            (JStr (VersionId curDeleteMarker)) creds)
                     (ret_DeleteMarkers files);
               acc = run_queue
                       (\<lambda>task. s3_deleteObjectVersion (deleteSend p) (task_bucketName task)
                                  (task_path task) (task_versionId task) (task_credentials task))
                       items
           in s3_drain p bucketName folder creds (fst acc) (snd acc)))"

section \<open>google-cloud-storage-v2: listing, deleting\<close>

text \<open>A \<open>File\<close> of the GCS client: its name and its generation (a number).\<close>

datatype gcs_file = GcsFile (gcs_name: string) (generation: int)

text \<open>
  The provider as the GCS connector sees it: \<open>bucket.exists\<close> (the pair \<open>(error, exists)\<close>
  given to the callback), \<open>bucket.getFiles\<close> before and after the deletions,
  \<open>file.delete\<close> and \<open>bucket.delete\<close>. The GCS connector never reads a property of the
  credentials: it hands them to the client and addresses the bucket named after the
  installation.
\<close>

record gcs_provider =
  gcs_exists :: "string \<Rightarrow> jserror option \<times> bool"
  gcs_getFiles :: "string \<Rightarrow> string \<Rightarrow> jserror + gcs_file list"
  gcs_getFiles_after :: "string \<Rightarrow> string \<Rightarrow> jserror + gcs_file list"
  gcs_fileDelete :: "string \<Rightarrow> string \<Rightarrow> jsval \<Rightarrow> jserror option"
  gcs_bucketDelete :: "string \<Rightarrow> jserror option"

definition gcs_listFileVersions ::
  "(string \<Rightarrow> jserror option \<times> bool) \<Rightarrow> (string \<Rightarrow> string \<Rightarrow> jserror + gcs_file list)
     \<Rightarrow> string \<Rightarrow> string \<Rightarrow> gcs_file list promise" where
  "gcs_listFileVersions exists getFiles installationId folder =
     (case exists installationId of
        (_, True) \<Rightarrow>
          (case getFiles installationId folder of
             Inr results \<Rightarrow> Fulfilled results
           | Inl error \<Rightarrow> RejectedWith (Error (''listFileVersions Error: '' @ error_text error)))
      | (Some error, False) \<Rightarrow> RejectedWith error
      | (None, False) \<Rightarrow> RejectedWith (Error ''listFileVersions Error: Bucket not found!''))"

definition gcs_deleteObjectVersion ::
  "gcs_provider \<Rightarrow> string \<Rightarrow> string \<Rightarrow> jsval \<Rightarrow> jserror + string" where
  "gcs_deleteObjectVersion p bucketName filePath versionId =
     (case gcs_exists p bucketName of
        (_, True) \<Rightarrow>
          (case gcs_fileDelete p bucketName filePath versionId of
             None \<Rightarrow> Inr (''Deleted '' @ bucketName @ ''/'' @ filePath)
           | Some error \<Rightarrow> Inl error)
      | (Some error, False) \<Rightarrow> Inl error
      | (None, False) \<Rightarrow> Inl (Error ''deleteObjectVersion Error: Bucket not found!''))"

text \<open>
  The drain callback of the GCS \<open>deleteAll\<close>: the bucket is deleted when the re-listing
  of the root is empty; there is no test of the credentials. The re-listing has no
  \<open>catch\<close>: its rejection is left unhandled.
\<close>

definition gcs_drain ::
  "gcs_provider \<Rightarrow> string \<Rightarrow> string \<Rightarrow> nat \<Rightarrow> failed_item list \<Rightarrow> deleteAll_outcome" where
  "gcs_drain p bucketName folder deleted failed =
     (let relist = (if folder = []
                    then Some (gcs_listFileVersions (gcs_exists p) (gcs_getFiles_after p)
                                 bucketName [])
                    else None);
          deleteBucket =
            (case relist of
               Some (Fulfilled remainingFiles) \<Rightarrow> length remainingFiles = 0
             | _ \<Rightarrow> False);
          later =
            (if deleteBucket then
               (case gcs_bucketDelete p bucketName of
                  None \<Rightarrow>
                    [Resolve (''Deleted '' @ show_nat deleted @ '' objects from ''
                       @ bucketName @ ''/'' @ folder @ '' and deleted bucket successfully'')]
                | Some error \<Rightarrow>
                    [Reject (RejectString (''Deleted '' @ show_nat deleted
                       @ '' objects from '' @ bucketName @ ''/'' @ folder
                       @ '', but experienced error deleting bucket: '' @ error_text error))])
             else []);
          unhandled = (case relist of Some (RejectedWith error) \<Rightarrow> [error] | _ \<Rightarrow> []);
          now = drain_report bucketName folder deleted failed
      in \<lparr>result = settle (fst now @ later),
          bucketDeletions = (if deleteBucket then [bucketName] else []),
          uncaught = snd now @ unhandled,
          itemsDeletedCount = deleted,
          failedItems = failed\<rparr>)"

definition gcs_deleteAll ::
  "gcs_provider \<Rightarrow> string \<Rightarrow> string \<Rightarrow> credentials \<Rightarrow> deleteAll_outcome" where
  "gcs_deleteAll p bucketName folder creds =
     (case gcs_listFileVersions (gcs_exists p) (gcs_getFiles p) bucketName folder of
        Pending \<Rightarrow> not_started Pending
      | RejectedWith error \<Rightarrow> not_started (RejectedWith error)
      | Fulfilled files \<Rightarrow>
          (let items =
                 map (\<lambda>curFile. DeleteTask bucketName (gcs_name curFile)
                                   (JNum (Fin (generation curFile))) creds) files;
               acc = run_queue
                       (\<lambda>task. gcs_deleteObjectVersion p (task_bucketName task) (task_path task)
                                  (task_versionId task))
                       items
           in gcs_drain p bucketName folder (fst acc) (snd acc)))"

section \<open>The transfer of the files of a backup\<close>

text \<open>\<open>ToString\<close>, for the string concatenations that read a credential.\<close>

fun ToString :: "jsval \<Rightarrow> string" where
  "ToString JUndefined = ''undefined''"
| "ToString JNull = ''null''"
| "ToString (JBool b) = (if b then ''true'' else ''false'')"
| "ToString (JNum NaN) = ''NaN''"
| "ToString (JNum PosInf) = ''Infinity''"
| "ToString (JNum NegInf) = ''-Infinity''"
| "ToString (JNum (Fin i)) = (if i < 0 then ''-'' @ show_nat (nat (- i)) else show_nat (nat i))"
| "ToString (JStr s) = s"

text \<open>\<^verbatim>\<open>credentials.version && credentials.version >= 2\<close>\<close>

definition version_ge_2 :: "jsval \<Rightarrow> bool" where
  "version_ge_2 v =
     (truthy v \<and> (case ToNumber v of Fin n \<Rightarrow> 2 \<le> n | PosInf \<Rightarrow> True | _ \<Rightarrow> False))"

datatype copy_parameters =
  CopyParameters (CopySource: string) (copy_Bucket: jsval) (copy_Key: string)

text \<open>
  The S3 \<open>transferBackupFiles\<close>: the copy commands pushed to the queue, one for every
  entry of \<open>public.Versions\<close> and \<open>private.Versions\<close> that passes the test
  \<^verbatim>\<open>currentObject.IsLatest === false\<close> (an S3 version always carries the flag).
\<close>

definition s3_copyParameters ::
  "string \<Rightarrow> credentials \<Rightarrow> string \<Rightarrow> credentials \<Rightarrow> s3_object \<Rightarrow> copy_parameters" where
  "s3_copyParameters sourceInstallationId sourceCredentials destinationInstallationId
       destinationCredentials currentObject =
     (let copysource =
            (if version_ge_2 (cred_version sourceCredentials) then
               ToString (case cred_bucket sourceCredentials of None \<Rightarrow> JUndefined | Some b \<Rightarrow> b)
                 @ ''/'' @ sourceInstallationId @ ''/'' @ Key currentObject @ ''?versionId=''
                 @ VersionId currentObject
             else sourceInstallationId @ ''/'' @ Key currentObject @ ''?versionId=''
                    @ VersionId currentObject)
      in if version_ge_2 (cred_version destinationCredentials) then
           CopyParameters copysource
             (case cred_bucket destinationCredentials of None \<Rightarrow> JUndefined | Some b \<Rightarrow> b)
             (destinationInstallationId @ ''/'' @ Key currentObject)
         else CopyParameters copysource (JStr destinationInstallationId) (Key currentObject))"

definition s3_transferBackupFiles ::
  "string \<Rightarrow> credentials \<Rightarrow> string \<Rightarrow> credentials \<Rightarrow> s3_object list \<Rightarrow> s3_object list
     \<Rightarrow> copy_parameters list" where
  "s3_transferBackupFiles sourceInstallationId sourceCredentials destinationInstallationId
       destinationCredentials publicVersions privateVersions =
     (let allObjects = publicVersions @ privateVersions
      in map (s3_copyParameters sourceInstallationId sourceCredentials destinationInstallationId
                destinationCredentials)
           (filter (\<lambda>currentObject. \<not> (IsLatest currentObject = False)) allObjects))"

text \<open>
  \<open>compareObject\<close> of the GCS \<open>transferBackupFiles\<close> is a plain object \<^verbatim>\<open>{}\<close>: its own
  properties in the order of their creation, and behind them the properties every
  object inherits from \<open>Object.prototype\<close>, which the operator \<open>in\<close> also finds.
\<close>

definition Object_prototype_keys :: "string list" where
  "Object_prototype_keys =
     [''constructor'', ''__defineGetter__'', ''__defineSetter__'', ''hasOwnProperty'',
      ''__lookupGetter__'', ''__lookupSetter__'', ''isPrototypeOf'', ''propertyIsEnumerable'',
      ''toString'', ''valueOf'', ''__proto__'', ''toLocaleString'']"

definition js_in :: "string \<Rightarrow> (string \<times> 'v) list \<Rightarrow> bool" where
  "js_in key obj = (key \<in> fst ` set obj \<or> key \<in> set Object_prototype_keys)"

text \<open>\<open>obj[key] = value\<close> on own properties: an existing one keeps its place.\<close>

fun assign :: "string \<Rightarrow> 'v \<Rightarrow> (string \<times> 'v) list \<Rightarrow> (string \<times> 'v) list" where
  "assign key v [] = [(key, v)]"
| "assign key v ((k, w) # obj) =
     (if k = key then (key, v) # obj else (k, w) # assign key v obj)"

text \<open>
  One round of the loop over \<open>allObjects\<close>. When \<open>filePath\<close> is found by \<open>in\<close> but is not an
  own property, \<open>compareObject[filePath]\<close> is the inherited function or object, whose
  comparison \<open><\<close> with a number is false: nothing is assigned.
\<close>

definition compare_step :: "(string \<times> int) list \<Rightarrow> gcs_file \<Rightarrow> (string \<times> int) list" where
  "compare_step compareObject currentObject =
     (let filePath = gcs_name currentObject; versionId = generation currentObject
      in if js_in filePath compareObject then
           (case map_of compareObject filePath of
              Some v \<Rightarrow>
                if v < versionId then assign filePath versionId compareObject
                else compareObject
            | None \<Rightarrow> compareObject)
         else assign filePath versionId compareObject)"

text \<open>
  \<open>Object.keys\<close>: the own keys that are array indices (canonical decimal numbers below
  \<open>2^32 - 1\<close>) in ascending numeric order, then the other keys in the order of their
  creation.
\<close>

definition is_array_index :: "string \<Rightarrow> bool" where
  "is_array_index key =
     (key \<noteq> [] \<and> list_all is_digit key \<and> (key = ''0'' \<or> hd key \<noteq> CHR ''0'')
      \<and> radix_value 10 key < 4294967295)"

definition Object_keys :: "(string \<times> 'v) list \<Rightarrow> string list" where
  "Object_keys obj =
     sort_key (radix_value 10) (filter is_array_index (map fst obj))
     @ filter (\<lambda>key. \<not> is_array_index key) (map fst obj)"

text \<open>
  The GCS \<open>transferBackupFiles\<close>: the state of its promise and the copy commands
  \<^verbatim>\<open>{filePath, versionId}\<close> pushed to the queue. Copy failures are logged and ignored; the
  promise resolves when the queue drains.
\<close>

definition gcs_copyCommands :: "gcs_file list \<Rightarrow> gcs_file list \<Rightarrow> (string \<times> int) list" where
  "gcs_copyCommands publicObjects privateObjects =
     (let allObjects = publicObjects @ privateObjects;
          compareObject = foldl compare_step [] allObjects
      in map (\<lambda>key. (key, the (map_of compareObject key))) (Object_keys compareObject))"

definition gcs_transferBackupFiles ::
  "(string \<Rightarrow> jserror option \<times> bool) \<Rightarrow> string \<Rightarrow> string \<Rightarrow> gcs_file list \<Rightarrow> gcs_file list
     \<Rightarrow> unit promise \<times> (string \<times> int) list" where
  "gcs_transferBackupFiles exists sourceInstallationId destinationInstallationId
       publicObjects privateObjects =
     (case exists sourceInstallationId of
        (Some error, _) \<Rightarrow>
          (RejectedWith (RejectString (''Error finding source bucket: '' @ error_text error)), [])
      | (None, False) \<Rightarrow>
          (RejectedWith (RejectString (''Bucket '' @ sourceInstallationId @ '' does not exist'')),
           [])
      | (None, True) \<Rightarrow>
          (case exists destinationInstallationId of
             (Some error, _) \<Rightarrow>
               (RejectedWith (RejectString
                  (''Error finding destination bucket: '' @ error_text error)), [])
           | (None, False) \<Rightarrow>
               (RejectedWith (RejectString
                  (''Bucket '' @ destinationInstallationId @ '' does not exist'')), [])
           | (None, True) \<Rightarrow> (Fulfilled (), gcs_copyCommands publicObjects privateObjects)))"

section \<open>file-management-utils: the dispatcher\<close>

text \<open>What \<open>getFileConnectorInfo\<close> resolves with.\<close>

record providerInfo =
  provider :: string
  product :: string
  info_credentials :: credentials

definition unsupported :: "string \<Rightarrow> string \<Rightarrow> string \<Rightarrow> 'a promise" where
  "unsupported method prv prd =
     RejectedWith (Error (method @ '' error: method does not currently support '' @ prv
                            @ [CHR 0x27] @ ''s '' @ prd))"

text \<open>
  The nested \<open>switch\<close> every operation of the dispatcher repeats. \<open>gcs\<close> and \<open>s3\<close> are the
  promises of the two connectors' operations; \<open>googleMethod\<close> is the method name in the
  message of the \<open>default\<close> under \<open>google\<close>, \<open>method\<close> the name in the other two.
\<close>

definition switch_provider ::
  "string \<Rightarrow> string \<Rightarrow> string \<Rightarrow> string \<Rightarrow> 'a promise \<Rightarrow> 'a promise \<Rightarrow> 'a promise" where
  "switch_provider googleMethod method prv prd gcs s3 =
     (if prv = ''google'' then
        (if prd = ''storage'' then gcs else unsupported googleMethod prv prd)
      else if prv = ''amazon'' then
        (if prd = ''s3'' then s3 else unsupported method prv prd)
      else unsupported method prv prd)"

definition files_listFileVersions ::
  "jserror + providerInfo \<Rightarrow> (credentials \<Rightarrow> 'a promise) \<Rightarrow> (credentials \<Rightarrow> 'a promise)
     \<Rightarrow> 'a promise" where
  "files_listFileVersions info gcs s3 =
     (case info of
        Inl error \<Rightarrow> RejectedWith error
      | Inr i \<Rightarrow>
          switch_provider ''listFiles'' ''listFileVersions'' (provider i) (product i)
            (gcs (info_credentials i)) (s3 (info_credentials i)))"

definition files_listBackups ::
  "jserror + providerInfo \<Rightarrow> (credentials \<Rightarrow> 'a promise) \<Rightarrow> (credentials \<Rightarrow> 'a promise)
     \<Rightarrow> 'a promise" where
  "files_listBackups info gcs s3 =
     (case info of
        Inl error \<Rightarrow> RejectedWith error
      | Inr i \<Rightarrow>
          switch_provider ''listFiles'' ''listBackups'' (provider i) (product i)
            (gcs (info_credentials i)) (s3 (info_credentials i)))"

definition files_calculateDate ::
  "jserror + providerInfo \<Rightarrow> 'a promise \<Rightarrow> 'a promise \<Rightarrow> 'a promise" where
  "files_calculateDate info gcs s3 =
     (case info of
        Inl error \<Rightarrow> RejectedWith error
      | Inr i \<Rightarrow>
          switch_provider ''calculateDate'' ''calculateDate'' (provider i) (product i) gcs s3)"

definition files_deleteObjectVersion ::
  "jserror + providerInfo \<Rightarrow> (credentials \<Rightarrow> 'a promise) \<Rightarrow> (credentials \<Rightarrow> 'a promise)
     \<Rightarrow> 'a promise" where
  "files_deleteObjectVersion info gcs s3 =
     (case info of
        Inl error \<Rightarrow> RejectedWith error
      | Inr i \<Rightarrow>
          switch_provider ''deleteObjectVersion'' ''deleteObjectVersion'' (provider i)
            (product i) (gcs (info_credentials i)) (s3 (info_credentials i)))"

definition files_deleteAll ::
  "jserror + providerInfo \<Rightarrow> (credentials \<Rightarrow> 'a promise) \<Rightarrow> (credentials \<Rightarrow> 'a promise)
     \<Rightarrow> 'a promise" where
  "files_deleteAll info gcs s3 =
     (case info of
        Inl error \<Rightarrow> RejectedWith error
      | Inr i \<Rightarrow>
          switch_provider ''deleteAll'' ''deleteAll'' (provider i) (product i)
            (gcs (info_credentials i)) (s3 (info_credentials i)))"

definition files_transferBackupFiles ::
  "string \<Rightarrow> string \<Rightarrow> 'a promise \<Rightarrow> 'a promise \<Rightarrow> 'a promise" where
  "files_transferBackupFiles prv prd gcs s3 =
     switch_provider ''transferBackupFiles'' ''transferBackupFiles'' prv prd gcs s3"

section \<open>Concrete listings and providers\<close>

text \<open>Credentials of an installation with a bucket of its own, and of one in a shared bucket.\<close>

definition own_bucket :: credentials where
  "own_bucket = \<lparr>cred_bucket = None, cred_version = JUndefined\<rparr>"

definition shared_bucket :: credentials where
  "shared_bucket = \<lparr>cred_bucket = Some (JStr ''shared''), cred_version = JNum (Fin 2)\<rparr>"

definition version_a :: s3_object where
  "version_a = \<lparr>Key = ''backups/b1/a'', VersionId = ''v1'', IsLatest = True\<rparr>"

definition marker_c :: s3_object where
  "marker_c = \<lparr>Key = ''backups/b1/c'', VersionId = ''v2'', IsLatest = True\<rparr>"

text \<open>
  A provider that answers in two pages: a truncated first page that holds one delete
  marker and no \<open>Versions\<close> property, then a last page with one version.
\<close>

definition markers_page_first :: "nat \<Rightarrow> list_request \<Rightarrow> jserror + list_response" where
  "markers_page_first n params =
     (if n = 0 then Inr \<lparr>Versions = None, DeleteMarkers = Some [marker_c], IsTruncated = True\<rparr>
      else Inr \<lparr>Versions = Some [version_a], DeleteMarkers = None, IsTruncated = False\<rparr>)"

text \<open>
  A provider that lists one version and one delete marker in a single page, deletes the
  version and refuses to delete the marker.
\<close>

definition one_page :: "nat \<Rightarrow> list_request \<Rightarrow> jserror + list_response" where
  "one_page n params =
     Inr \<lparr>Versions = Some [version_a], DeleteMarkers = Some [marker_c], IsTruncated = False\<rparr>"

definition marker_left :: "nat \<Rightarrow> list_request \<Rightarrow> jserror + list_response" where
  "marker_left n params =
     Inr \<lparr>Versions = None, DeleteMarkers = Some [marker_c], IsTruncated = False\<rparr>"

definition refuses_marker :: s3_provider where
  "refuses_marker =
     \<lparr>listSend = one_page, relistSend = marker_left,
      deleteSend = (\<lambda>params. if del_Key params = ''backups/b1/c''
                               then Some (ProviderError ''AccessDenied'') else None),
      deleteBucketSend = (\<lambda>bucket. None)\<rparr>"

text \<open>
  A GCS provider whose bucket exists and answers every call; \<open>files\<close> are listed before
  the deletions and \<open>left\<close> after them, and \<open>denied\<close> are the names whose deletion fails.
\<close>

definition gcs_bucket_with :: "gcs_file list \<Rightarrow> gcs_file list \<Rightarrow> string list \<Rightarrow> gcs_provider" where
  "gcs_bucket_with files left denied =
     \<lparr>gcs_exists = (\<lambda>bucket. (None, True)),
      gcs_getFiles = (\<lambda>bucket folder. Inr files),
      gcs_getFiles_after = (\<lambda>bucket folder. Inr left),
      gcs_fileDelete = (\<lambda>bucket filePath versionId.
                          if filePath \<in> set denied then Some (ProviderError ''Forbidden'')
                          else None),
      gcs_bucketDelete = (\<lambda>bucket. None)\<rparr>"

text \<open>A filesource of a provider the dispatcher does not know.\<close>

definition azure_blob :: providerInfo where
  "azure_blob = \<lparr>provider = ''azure'', product = ''blob'', info_credentials = own_bucket\<rparr>"

text \<open>
  A provider that serves a fixed list of pages, one per request, whatever the cursor;
  and what a page holds.
\<close>

definition pages_in_order ::
  "list_response list \<Rightarrow> nat \<Rightarrow> list_request \<Rightarrow> jserror + list_response" where
  "pages_in_order pages n params =
     (if n < length pages then Inr (pages ! n) else Inl (ProviderError ''NoSuchPage''))"

definition page_versions :: "list_response \<Rightarrow> s3_object list" where
  "page_versions response = (case Versions response of None \<Rightarrow> [] | Some vs \<Rightarrow> vs)"

definition page_markers :: "list_response \<Rightarrow> s3_object list" where
  "page_markers response = (case DeleteMarkers response of None \<Rightarrow> [] | Some ms \<Rightarrow> ms)"

section \<open>Notions used in the properties\<close>

text \<open>
  \<open>v\<close> is the highest generation the entries named \<open>key\<close> have in a manifest; and a
  map from paths to generations records, for every path that is not the name of an
  inherited property, its highest generation in the manifest.
\<close>

definition highest_of :: "gcs_file list \<Rightarrow> string \<Rightarrow> int \<Rightarrow> bool" where
  "highest_of es key v =
     ((\<exists>e \<in> set es. gcs_name e = key \<and> generation e = v)
      \<and> (\<forall>e \<in> set es. gcs_name e = key \<longrightarrow> generation e \<le> v))"

definition recorded :: "(string \<rightharpoonup> int) \<Rightarrow> gcs_file list \<Rightarrow> bool" where
  "recorded m es =
     ((\<forall>key v. m key = Some v \<longrightarrow> key \<notin> set Object_prototype_keys \<and> highest_of es key v)
      \<and> (\<forall>e \<in> set es. gcs_name e \<notin> set Object_prototype_keys \<longrightarrow> m (gcs_name e) \<noteq> None))"

text \<open>No two entries next to each other in the listing are both undated.\<close>

fun no_adjacent_undated :: "backup list \<Rightarrow> bool" where
  "no_adjacent_undated (x # y # rest) =
     (\<not> (date x = None \<and> date y = None) \<and> no_adjacent_undated (y # rest))"
| "no_adjacent_undated _ = True"

text \<open>A backup with a valid date, and its time value.\<close>

definition well_dated :: "backup \<Rightarrow> bool" where
  "well_dated b = (\<exists>t. date b = Some (Date (Fin t)))"

definition time_of :: "backup \<Rightarrow> int" where
  "time_of b = (case date b of Some (Date (Fin t)) \<Rightarrow> t | _ \<Rightarrow> 0)"

section \<open>Properties of the dry-run control and of the purge\<close>

text \<open>
  C10. The script is in live mode exactly when \<open>DRYRUN\<close> is set to a string whose lower
  case form is \<open>false\<close>; an unset variable, a value that is not a string, and every
  other string (among them \<open>0\<close>, \<open>no\<close> and the empty string) give dry-run mode.
\<close>

theorem dryrun_live_iff_false_string:
  "liveMode (dryrun_init env) = (\<exists>s. env = JStr s \<and> toLowerCase s = ''false'')"
  by (cases env) (auto simp: liveMode_def dryrun_init_def toLowerCase_def)

lemma dryrun_examples:
  "\<not> liveMode (dryrun_init JUndefined)"
  "\<not> liveMode (dryrun_init (JStr ''0''))"
  "\<not> liveMode (dryrun_init (JStr ''no''))"
  "\<not> liveMode (dryrun_init (JStr []))"
  "\<not> liveMode (dryrun_init (JBool False))"
  "liveMode (dryrun_init (JStr ''False''))"
  by (simp_all add: liveMode_def dryrun_init_def toLowerCase_def lower_char_def)

text \<open>
  C2. In dry-run mode (\<open>dryrun\<close> is not \<open>false\<close>) the purge of an installation pushes no
  task to the queue, so the worker issues no \<open>deleteAll\<close> call; when the purge goes on
  past the count test, the callback prints the planned deletions and the planned
  retentions. An unset \<open>DRYRUN\<close> gives dry-run mode.
\<close>

theorem dryrun_never_deletes:
  assumes "dryrun \<noteq> JBool False"
  shows "deleteBackups (purgeInstallation dryrun inst resolved) = []
    \<and> deleteAll_calls (purgeInstallation dryrun inst resolved) = []
    \<and> (quantity < length (snd (excludeUnsortable dryrun resolved)) \<longrightarrow>
         console (purgeInstallation dryrun inst resolved) =
           [inst @ '': Dryrun wants to delete ''
              @ show_nat (length (backupsToDelete (purgeInstallation dryrun inst resolved)))
              @ '' backups:'']
           @ map (\<lambda>b. ''Delete: '' @ name b @ '', filesource: '' @ filesource b)
               (backupsToDelete (purgeInstallation dryrun inst resolved))
           @ [inst @ '': Dryrun wants to keep ''
                @ show_nat (length (backupsToKeep (purgeInstallation dryrun inst resolved)))
                @ '' backups'']
           @ map (\<lambda>b. ''Keep: '' @ name b @ '', filesource: '' @ filesource b)
               (backupsToKeep (purgeInstallation dryrun inst resolved)))
    \<and> dryrun_init JUndefined \<noteq> JBool False"
  using assms
  by (simp add: purgeInstallation_def deleteAll_calls_def dryrun_init_def Let_def
      split: prod.splits)

theorem dryrun_never_deletes_witness:
  "JBool True \<noteq> JBool False
   \<and> quantity < length (snd (excludeUnsortable (JBool True) thirty_dated_two_undated))
   \<and> deleteBackups (purgeInstallation (JBool True) ''inst'' thirty_dated_two_undated) = []
   \<and> deleteAll_calls (purgeInstallation (JBool True) ''inst'' thirty_dated_two_undated) = []
   \<and> length (console (purgeInstallation (JBool True) ''inst'' thirty_dated_two_undated)) = 34"
proof -
  have h: "JBool True \<noteq> JBool False" by simp
  have q: "quantity < length (snd (excludeUnsortable (JBool True) thirty_dated_two_undated))"
    by code_simp
  have n: "length (backupsToDelete (purgeInstallation (JBool True) ''inst''
              thirty_dated_two_undated)) = 1"
    "length (backupsToKeep (purgeInstallation (JBool True) ''inst''
              thirty_dated_two_undated)) = 31"
    by code_simp+
  from dryrun_never_deletes [OF h, of "''inst''" thirty_dated_two_undated] h q n
  show ?thesis by simp
qed

text \<open>
  C1, at a listing of thirty dated backups followed by two undated ones. The second
  undated entry moves to the index of the first when that one is removed, and
  \<open>forEach\<close> goes on with the next index: the entry stays in the array. Thirty-one
  entries are then ranked, the undated one as the most recent, and the oldest dated
  backup is queued for deletion although only thirty dated backups exist.
\<close>

theorem purge_adjacent_undated_deletes_dated:
  "length (filter (\<lambda>b. date b \<noteq> None) thirty_dated_two_undated) = 30
   \<and> quantity = 30
   \<and> map name (snd (excludeUnsortable (JBool False) thirty_dated_two_undated))
       = map name (map dated [1 ..< 31]) @ [''y'']
   \<and> deleteBackups (purgeInstallation (JBool False) ''inst'' thirty_dated_two_undated)
       = [PurgeTask ''inst'' ''backups/b1'' ''fs'']"
  by code_simp

text \<open>
  What does hold for the exclusion: when no two undated entries are next to each other,
  the loop removes every undated entry (and, in dry-run mode, keeps them aside), since
  the entry it skips after a removal is then a dated one.
\<close>

lemma forEach_splice_done:
  "length backupObjects \<le> k \<Longrightarrow>
     forEach_splice dryrun len k keep backupObjects = (keep, backupObjects)"
proof (induction "len - k" arbitrary: k)
  case 0
  then show ?case by (subst forEach_splice.simps) simp
next
  case (Suc n)
  then have "n = len - Suc k" "length backupObjects \<le> Suc k" by simp_all
  then have "forEach_splice dryrun len (Suc k) keep backupObjects = (keep, backupObjects)"
    by (rule Suc.hyps(1))
  then show ?case using Suc.prems by (subst forEach_splice.simps) simp
qed

lemma forEach_splice_no_adjacent:
  assumes "no_adjacent_undated S" "\<forall>b \<in> set P. date b \<noteq> None" "length P + length S \<le> len"
  shows "forEach_splice dryrun len (length P) keep (P @ S)
     = (keep @ (if dryrun \<noteq> JBool False then filter (\<lambda>b. date b = None) S else []),
        P @ filter (\<lambda>b. date b \<noteq> None) S)"
  using assms
proof (induction S arbitrary: P keep rule: length_induct)
  case (1 S)
  show ?case
  proof (cases S)
    case Nil
    then show ?thesis by (simp add: forEach_splice_done)
  next
    case (Cons x S')
    have k: "length P < len" using "1.prems"(3) Cons by simp
    show ?thesis
    proof (cases "date x = None")
      case False
      have na: "no_adjacent_undated S'"
        using "1.prems"(1) Cons by (cases S') simp_all
      have sm: "length S' < length S" using Cons by simp
      have p': "\<forall>b \<in> set (P @ [x]). date b \<noteq> None" using "1.prems"(2) False by simp
      have l': "length (P @ [x]) + length S' \<le> len" using "1.prems"(3) Cons by simp
      have "forEach_splice dryrun len (length P) keep (P @ S)
          = forEach_splice dryrun len (length (P @ [x])) keep ((P @ [x]) @ S')"
        unfolding Cons by (subst forEach_splice.simps) (simp add: k False del: not_None_eq)
      also have "\<dots>
          = (keep @ (if dryrun \<noteq> JBool False then filter (\<lambda>b. date b = None) S' else []),
             (P @ [x]) @ filter (\<lambda>b. date b \<noteq> None) S')"
        by (rule "1.IH" [rule_format, OF sm na p' [rule_format] l'])
      also have "\<dots>
          = (keep @ (if dryrun \<noteq> JBool False then filter (\<lambda>b. date b = None) S else []),
             P @ filter (\<lambda>b. date b \<noteq> None) S)"
        unfolding Cons using False by auto
      finally show ?thesis .
    next
      case True
      define kp where "kp = (if dryrun \<noteq> JBool False then keep @ [x] else keep)"
      have step: "forEach_splice dryrun len (length P) keep (P @ S)
          = forEach_splice dryrun len (Suc (length P)) kp (P @ S')"
        unfolding Cons kp_def by (subst forEach_splice.simps) (simp add: k True)
      show ?thesis
      proof (cases S')
        case Nil
        have "forEach_splice dryrun len (Suc (length P)) kp (P @ S') = (kp, P)"
          unfolding Nil by (simp add: forEach_splice_done)
        also have "\<dots>
            = (keep @ (if dryrun \<noteq> JBool False then filter (\<lambda>b. date b = None) S else []),
               P @ filter (\<lambda>b. date b \<noteq> None) S)"
          unfolding \<open>S = x # S'\<close> Nil kp_def using True by simp
        finally show ?thesis using step by simp
      next
        case (Cons y R)
        have y: "date y \<noteq> None" and na: "no_adjacent_undated R"
          using "1.prems"(1) \<open>S = x # S'\<close> Cons True by (cases R; simp)+
        have sm: "length R < length S" using \<open>S = x # S'\<close> Cons by simp
        have p': "\<forall>b \<in> set (P @ [y]). date b \<noteq> None" using "1.prems"(2) y by simp
        have l': "length (P @ [y]) + length R \<le> len"
          using "1.prems"(3) \<open>S = x # S'\<close> Cons by simp
        have "forEach_splice dryrun len (Suc (length P)) kp (P @ S')
            = forEach_splice dryrun len (length (P @ [y])) kp ((P @ [y]) @ R)"
          unfolding Cons by simp
        also have "\<dots>
            = (kp @ (if dryrun \<noteq> JBool False then filter (\<lambda>b. date b = None) R else []),
               (P @ [y]) @ filter (\<lambda>b. date b \<noteq> None) R)"
          by (rule "1.IH" [rule_format, OF sm na p' [rule_format] l'])
        also have "\<dots>
            = (keep @ (if dryrun \<noteq> JBool False then filter (\<lambda>b. date b = None) S else []),
               P @ filter (\<lambda>b. date b \<noteq> None) S)"
          unfolding \<open>S = x # S'\<close> Cons kp_def using True y by auto
        finally show ?thesis using step by simp
      qed
    qed
  qed
qed

lemma excludeUnsortable_no_adjacent:
  assumes "no_adjacent_undated resolved"
  shows "excludeUnsortable dryrun resolved
     = (if dryrun \<noteq> JBool False then filter (\<lambda>b. date b = None) resolved else [],
        filter (\<lambda>b. date b \<noteq> None) resolved)"
  using forEach_splice_no_adjacent [OF assms, of "[]" "length resolved" dryrun "[]"]
  by (simp add: excludeUnsortable_def)

text \<open>
  The sort puts the backups with a valid date in ascending order of their time, and
  the slices split the sorted array before its last \<open>quantity\<close> entries. So, for a listing
  without two adjacent undated entries and with more than \<open>quantity\<close> dated backups, the
  plan deletes all but the \<open>quantity\<close> most recent dated backups.
\<close>

lemma compareFn_positive:
  "well_dated a \<Longrightarrow> well_dated b \<Longrightarrow> js_positive (compareFn a b) = (time_of b < time_of a)"
  by (auto simp: well_dated_def compareFn_def sortTime_def time_of_def)

lemma set_insort_cmp: "set (insort_cmp cmp x ys) = insert x (set ys)"
  by (induction ys) auto

lemma length_insort_cmp: "length (insort_cmp cmp x ys) = Suc (length ys)"
  by (induction ys) auto

lemma sorted_insort_cmp:
  assumes "well_dated x" "\<forall>y \<in> set ys. well_dated y"
    and "sorted_wrt (\<lambda>a b. time_of a \<le> time_of b) ys"
  shows "sorted_wrt (\<lambda>a b. time_of a \<le> time_of b) (insort_cmp compareFn x ys)"
  using assms
proof (induction ys)
  case Nil
  then show ?case by simp
next
  case (Cons y ys)
  show ?case
  proof (cases "time_of y < time_of x")
    case True
    then have "insort_cmp compareFn x (y # ys) = y # insort_cmp compareFn x ys"
      using Cons.prems by (simp add: compareFn_positive)
    moreover have "sorted_wrt (\<lambda>a b. time_of a \<le> time_of b) (insort_cmp compareFn x ys)"
      using Cons by simp
    ultimately show ?thesis
      using Cons.prems True by (auto simp: set_insort_cmp)
  next
    case False
    then have "insort_cmp compareFn x (y # ys) = x # y # ys"
      using Cons.prems by (simp add: compareFn_positive)
    then show ?thesis using Cons.prems False by auto
  qed
qed

lemma set_Array_sort: "set (Array_sort cmp xs) = set xs"
  by (induction xs) (simp_all add: Array_sort_def set_insort_cmp)

lemma length_Array_sort: "length (Array_sort cmp xs) = length xs"
  by (induction xs) (simp_all add: Array_sort_def length_insort_cmp)

lemma sorted_Array_sort:
  "\<forall>x \<in> set xs. well_dated x \<Longrightarrow>
     sorted_wrt (\<lambda>a b. time_of a \<le> time_of b) (Array_sort compareFn xs)"
proof (induction xs)
  case Nil
  show ?case by (simp add: Array_sort_def)
next
  case (Cons x xs)
  have "Array_sort compareFn (x # xs) = insort_cmp compareFn x (Array_sort compareFn xs)"
    by (simp add: Array_sort_def)
  moreover have "sorted_wrt (\<lambda>a b. time_of a \<le> time_of b)
      (insort_cmp compareFn x (Array_sort compareFn xs))"
    using Cons by (intro sorted_insort_cmp) (simp_all add: set_Array_sort)
  ultimately show ?case by simp
qed

lemma purge_retains_most_recent:
  assumes na: "no_adjacent_undated resolved"
    and wd: "\<forall>b \<in> set resolved. date b \<noteq> None \<longrightarrow> well_dated b"
    and more: "quantity < length (filter (\<lambda>b. date b \<noteq> None) resolved)"
  shows "\<exists>retained.
      Array_sort compareFn (filter (\<lambda>b. date b \<noteq> None) resolved)
        = backupsToDelete (purgeInstallation dryrun inst resolved) @ retained
      \<and> length retained = quantity
      \<and> (\<forall>d \<in> set (backupsToDelete (purgeInstallation dryrun inst resolved)).
            \<forall>r \<in> set retained. time_of d \<le> time_of r)
      \<and> set (backupsToDelete (purgeInstallation dryrun inst resolved)) \<union> set retained
          = {b \<in> set resolved. date b \<noteq> None}
      \<and> deleteBackups (purgeInstallation dryrun inst resolved)
          = (if dryrun = JBool False
             then map (\<lambda>b. PurgeTask inst (''backups/'' @ name b) (filesource b))
                    (backupsToDelete (purgeInstallation dryrun inst resolved))
             else [])
      \<and> (dryrun \<noteq> JBool False \<longrightarrow>
            backupsToKeep (purgeInstallation dryrun inst resolved)
              = filter (\<lambda>b. date b = None) resolved @ retained)"
proof -
  define objs where "objs = filter (\<lambda>b. date b \<noteq> None) resolved"
  define sorted where "sorted = Array_sort compareFn objs"
  define n where "n = length sorted"
  have ex: "excludeUnsortable dryrun resolved
      = (if dryrun \<noteq> JBool False then filter (\<lambda>b. date b = None) resolved else [], objs)"
    unfolding objs_def by (rule excludeUnsortable_no_adjacent [OF na])
  have len: "n = length objs" by (simp add: n_def sorted_def length_Array_sort)
  have q: "quantity < n" using more by (simp add: len objs_def)
  have qpos: "- int quantity < 0" by (simp add: quantity_def)
  have cut: "slice_index (length sorted) (- int quantity) = n - quantity"
    using q qpos by (simp add: slice_index_def n_def)
  have del: "js_slice sorted 0 (- int quantity) = take (n - quantity) sorted"
    by (simp add: js_slice_def cut Let_def slice_index_def [of _ 0])
  have keep: "js_slice_from sorted (- int quantity) = drop (n - quantity) sorted"
    by (simp add: js_slice_from_def cut)
  have wd': "\<forall>x \<in> set objs. well_dated x" using wd by (simp add: objs_def)
  have srt: "sorted_wrt (\<lambda>a b. time_of a \<le> time_of b)
      (take (n - quantity) sorted @ drop (n - quantity) sorted)"
    using sorted_Array_sort [OF wd'] by (simp add: sorted_def)
  have D: "backupsToDelete (purgeInstallation dryrun inst resolved) = take (n - quantity) sorted"
    using q by (simp add: purgeInstallation_def ex len [symmetric] del sorted_def [symmetric]
        Let_def)
  have T: "deleteBackups (purgeInstallation dryrun inst resolved)
      = (if dryrun = JBool False
         then map (\<lambda>b. PurgeTask inst (''backups/'' @ name b) (filesource b))
                (take (n - quantity) sorted)
         else [])"
    using q by (simp add: purgeInstallation_def ex len [symmetric] del sorted_def [symmetric]
        Let_def)
  have K: "dryrun \<noteq> JBool False \<Longrightarrow>
      backupsToKeep (purgeInstallation dryrun inst resolved)
        = filter (\<lambda>b. date b = None) resolved @ drop (n - quantity) sorted"
    using q by (simp add: purgeInstallation_def ex len [symmetric] keep sorted_def [symmetric]
        Let_def)
  have S: "set (take (n - quantity) sorted) \<union> set (drop (n - quantity) sorted)
      = {b \<in> set resolved. date b \<noteq> None}"
  proof -
    have "set (take (n - quantity) sorted) \<union> set (drop (n - quantity) sorted) = set sorted"
      by (metis append_take_drop_id set_append)
    then show ?thesis by (auto simp: sorted_def set_Array_sort objs_def)
  qed
  have O: "\<forall>d \<in> set (take (n - quantity) sorted).
      \<forall>r \<in> set (drop (n - quantity) sorted). time_of d \<le> time_of r"
    using srt unfolding sorted_wrt_append by blast
  have L: "length (drop (n - quantity) sorted) = quantity"
    using q by (simp add: n_def)
  show ?thesis
    apply (rule exI [of _ "drop (n - quantity) sorted"])
    unfolding D T
    using L O S K by (simp add: sorted_def objs_def D)
qed

section \<open>Properties of \<open>calculateDate\<close>\<close>

lemma digits_in_radix: "list_all (digit_in_radix 10) ''0123456789''"
  by code_simp

lemma is_digit_radix: "is_digit c \<Longrightarrow> digit_in_radix 10 c"
  using digits_in_radix unfolding is_digit_def list_all_iff by blast

lemma digits_not_whitespace: "list_all (\<lambda>c. \<not> is_whitespace c) ''0123456789''"
  by code_simp

lemma is_digit_not_ws: "is_digit c \<Longrightarrow> \<not> is_whitespace c"
  using digits_not_whitespace unfolding is_digit_def list_all_iff by blast

lemma digits_not_special: "list_all (\<lambda>c. c \<notin> set ''-+xXoObBI.'') ''0123456789''"
  by code_simp

lemma is_digit_not_special:
  assumes "is_digit c"
  shows "c \<noteq> CHR ''-'' \<and> c \<noteq> CHR ''+'' \<and> c \<noteq> CHR ''x'' \<and> c \<noteq> CHR ''X''
     \<and> c \<noteq> CHR ''o'' \<and> c \<noteq> CHR ''O'' \<and> c \<noteq> CHR ''b'' \<and> c \<noteq> CHR ''B'' \<and> c \<noteq> CHR ''I''
     \<and> c \<noteq> CHR ''.''"
proof -
  have "c \<notin> set ''-+xXoObBI.''"
    using digits_not_special assms unfolding is_digit_def list_all_iff by blast
  then show ?thesis by simp
qed

lemma radix_value_snoc:
  "radix_value R (ds @ [c]) = radix_value R ds * R + (case radix_digit c of None \<Rightarrow> 0 | Some v \<Rightarrow> v)"
  by (simp add: radix_value_def)

lemma digits_radix_digit:
  "list_all (\<lambda>c. case radix_digit c of None \<Rightarrow> False | Some v \<Rightarrow> 0 \<le> v \<and> v < 10)
     ''0123456789''"
  by code_simp

lemma radix_digit_digit:
  assumes "is_digit c"
  shows "\<exists>v. radix_digit c = Some v \<and> 0 \<le> v \<and> v < 10"
proof -
  have "case radix_digit c of None \<Rightarrow> False | Some v \<Rightarrow> 0 \<le> v \<and> v < 10"
    using digits_radix_digit assms unfolding is_digit_def list_all_iff by blast
  then show ?thesis by (cases "radix_digit c") simp_all
qed

lemma radix_value_bound:
  "list_all is_digit ds \<Longrightarrow> 0 \<le> radix_value 10 ds \<and> radix_value 10 ds < 10 ^ length ds"
proof (induction ds rule: rev_induct)
  case Nil
  then show ?case by (simp add: radix_value_def)
next
  case (snoc c ds)
  then have d: "is_digit c"
    and ih: "0 \<le> radix_value 10 ds" "radix_value 10 ds < 10 ^ length ds" by simp_all
  from radix_digit_digit [OF d] obtain v where v: "radix_digit c = Some v" "0 \<le> v" "v < 10"
    by blast
  define P :: int where "P = 10 ^ length ds"
  have "radix_value 10 ds + 1 \<le> P" using ih(2) by (simp add: P_def)
  then have "radix_value 10 ds * 10 + v < P * 10" using v by linarith
  then show ?case using ih(1) v by (simp add: radix_value_snoc P_def)
qed

lemma dropWhile_hd: "xs \<noteq> [] \<Longrightarrow> \<not> P (hd xs) \<Longrightarrow> dropWhile P xs = xs"
  by (cases xs) simp_all

lemma digits_hd: "ds \<noteq> [] \<Longrightarrow> list_all is_digit ds \<Longrightarrow> is_digit (hd ds)"
  by (cases ds) simp_all

lemma digits_last: "ds \<noteq> [] \<Longrightarrow> list_all is_digit ds \<Longrightarrow> is_digit (last ds)"
  by (simp add: list_all_iff)

lemma takeWhile_all: "list_all P xs \<Longrightarrow> takeWhile P xs = xs"
  by (induction xs) simp_all

lemma dropWhile_all: "list_all P xs \<Longrightarrow> dropWhile P xs = []"
  by (induction xs) simp_all

lemma not_hex_prefix:
  assumes "list_all is_digit ds"
  shows "take 2 ds \<noteq> ''0x'' \<and> take 2 ds \<noteq> ''0X''"
proof (cases ds)
  case Nil
  then show ?thesis by simp
next
  case (Cons a as)
  show ?thesis
  proof (cases as)
    case Nil
    with Cons show ?thesis by simp
  next
    case (Cons b bs)
    with \<open>ds = a # as\<close> assms have "is_digit b" by simp
    then show ?thesis using is_digit_not_special [of b] Cons \<open>ds = a # as\<close> by auto
  qed
qed

lemma parseInt_digits:
  assumes "ds \<noteq> []" "list_all is_digit ds"
  shows "parseInt ds = Fin (decimal ds)"
proof -
  have h: "is_digit (hd ds)" using assms by (rule digits_hd)
  have ws: "dropWhile is_whitespace ds = ds"
    using assms(1) h by (simp add: dropWhile_hd is_digit_not_ws)
  have sg: "hd ds \<noteq> CHR ''-''" "hd ds \<noteq> CHR ''+''" using is_digit_not_special [OF h] by simp_all
  have tw: "takeWhile (digit_in_radix 10) ds = ds"
    using assms(2) by (intro takeWhile_all) (simp add: list_all_iff is_digit_radix)
  show ?thesis
    using assms(1) not_hex_prefix [OF assms(2)]
    by (simp add: parseInt_def ws sg tw decimal_def Let_def)
qed

lemma trim_digits:
  assumes "ds \<noteq> []" "list_all is_digit ds"
  shows "trim ds = ds"
proof -
  have 1: "dropWhile is_whitespace ds = ds"
    using assms by (simp add: dropWhile_hd is_digit_not_ws digits_hd)
  have "hd (rev ds) = last ds" using assms(1) by (simp add: hd_rev)
  then have 2: "dropWhile is_whitespace (rev ds) = rev ds"
    using assms by (simp add: dropWhile_hd is_digit_not_ws digits_last)
  show ?thesis by (simp add: trim_def 1 2)
qed

lemma nondecimal_digits:
  assumes "list_all is_digit ds"
  shows "nondecimal_literal ds = None"
proof (cases "2 < length ds")
  case True
  then have "is_digit (ds ! 1)" using assms by (simp add: list_all_length)
  from is_digit_not_special [OF this] show ?thesis
    by (simp add: nondecimal_literal_def Let_def)
next
  case False
  then show ?thesis by (simp add: nondecimal_literal_def)
qed

lemma unsigned_decimal_digits:
  assumes "ds \<noteq> []" "list_all is_digit ds" "length ds \<le> 4"
  shows "unsigned_decimal ds = Fin (decimal ds)"
proof -
  have "hd ds \<noteq> CHR ''I''" using is_digit_not_special [OF digits_hd [OF assms(1,2)]] by simp
  then have ninf: "ds \<noteq> ''Infinity''" by auto
  have "radix_value 10 ds < 10 ^ length ds" using radix_value_bound [OF assms(2)] by simp
  also have "\<dots> \<le> (10::int) ^ 4" using assms(3) by (intro power_increasing) simp_all
  finally have "radix_value 10 ds < 10000" by simp
  then have ri: "round_inf (radix_value 10 ds) = Fin (radix_value 10 ds)"
    by (simp add: round_inf_def)
  show ?thesis
    using assms(1)
    by (simp add: unsigned_decimal_def ninf takeWhile_all [OF assms(2)]
        dropWhile_all [OF assms(2)] exponent_part_def scale10_def ri decimal_def Let_def)
qed

lemma StringToNumber_digits:
  assumes "ds \<noteq> []" "list_all is_digit ds" "length ds \<le> 4"
  shows "StringToNumber ds = Fin (decimal ds)"
proof -
  have sg: "hd ds \<noteq> CHR ''-''" "hd ds \<noteq> CHR ''+''"
    using is_digit_not_special [OF digits_hd [OF assms(1,2)]] by simp_all
  show ?thesis
    using assms(1)
    by (simp add: StringToNumber_def trim_digits [OF assms(1,2)] nondecimal_digits [OF assms(2)]
        sg unsigned_decimal_digits [OF assms] Let_def)
qed

lemma DayFromYear_bound:
  "0 \<le> y \<Longrightarrow> y \<le> 20000 \<Longrightarrow> - 1000000 \<le> DayFromYear y \<and> DayFromYear y \<le> 10000000"
proof -
  assume y: "0 \<le> y" "y \<le> 20000"
  have a: "(- 1969) div 4 \<le> (y - 1969) div 4" "(y - 1969) div 4 \<le> 18031 div (4::int)"
    using y by (intro zdiv_mono1; simp)+
  have b: "(- 1901) div 100 \<le> (y - 1901) div 100" "(y - 1901) div 100 \<le> 18099 div (100::int)"
    using y by (intro zdiv_mono1; simp)+
  have c: "(- 1601) div 400 \<le> (y - 1601) div 400" "(y - 1601) div 400 \<le> 18399 div (400::int)"
    using y by (intro zdiv_mono1; simp)+
  have n: "(- 1969) div 4 = (- 493::int)" "18031 div 4 = (4507::int)"
    "(- 1901) div 100 = (- 20::int)" "18099 div 100 = (180::int)"
    "(- 1601) div 400 = (- 5::int)" "18399 div 400 = (45::int)"
    by simp_all
  have lin: "\<And>A B C :: int. - 493 \<le> A \<Longrightarrow> A \<le> 4507 \<Longrightarrow> - 20 \<le> B \<Longrightarrow> B \<le> 180 \<Longrightarrow>
      - 5 \<le> C \<Longrightarrow> C \<le> 45 \<Longrightarrow>
      - 1000000 \<le> 365 * (y - 1970) + A - B + C \<and> 365 * (y - 1970) + A - B + C \<le> 10000000"
    using y by simp
  show ?thesis
    unfolding DayFromYear_def using a b c unfolding n by (intro lin)
qed

lemma month_start_bound:
  assumes "mn < 12"
  shows "0 \<le> month_start y mn \<and> month_start y mn \<le> 335"
proof -
  from assms consider "mn = 0" | "mn = 1" | "mn = 2" | "mn = 3" | "mn = 4" | "mn = 5"
    | "mn = 6" | "mn = 7" | "mn = 8" | "mn = 9" | "mn = 10" | "mn = 11"
    by atomize_elim arith
  then show ?thesis
    by cases (simp_all add: month_start_def)
qed

lemma new_Date_finite:
  assumes "0 \<le> Y" "Y < 10000" "- 1 \<le> M" "M \<le> 98" "0 \<le> D" "D \<le> 99"
  shows "\<not> js_isNaN (getTime (new_Date (JNum (Fin Y)) (JNum (Fin M)) (JNum (Fin D))))"
proof -
  define yr where "yr = (if Y \<le> 99 then 1900 + Y else Y)"
  define ym where "ym = yr + M div 12"
  define mn where "mn = nat (M mod 12)"
  have yr: "100 \<le> yr" "yr < 10000" using assms by (auto simp: yr_def)
  have "- 1 \<le> M div 12" "M div 12 \<le> 8" using assms by linarith+
  then have ym: "0 \<le> ym" "ym \<le> 20000" using yr by (simp_all add: ym_def)
  have mn: "mn < 12" by (simp add: mn_def nat_less_iff)
  note b1 = DayFromYear_bound [OF ym]
  note b2 = month_start_bound [OF mn, of ym]
  define day where "day = DayFromYear ym + month_start ym mn + D - 1"
  have day: "- 2000000 \<le> day" "day \<le> 20000000" using b1 b2 assms by (simp_all add: day_def)
  then have "\<bar>day * 86400000\<bar> \<le> 8640000000000000" by linarith
  then have clip: "TimeClip (Fin (day * 86400000)) = Fin (day * 86400000)"
    by (simp add: TimeClip_def)
  have md: "MakeDay (Fin yr) (Fin M) (Fin D) = Fin day"
    by (simp add: MakeDay_def Let_def ym_def mn_def day_def)
  have "new_Date (JNum (Fin Y)) (JNum (Fin M)) (JNum (Fin D))
      = Date (TimeClip (MakeDate (MakeDay (Fin yr) (Fin M) (Fin D)) 0))"
    using assms(1) by (simp add: new_Date_def yr_def Let_def)
  also have "\<dots> = Date (Fin (day * 86400000))"
    by (simp only: md) (simp add: MakeDate_def msPerDay_def clip)
  finally show ?thesis by simp
qed

lemma decimal_range:
  assumes "list_all is_digit ds"
  shows "0 \<le> decimal ds \<and> decimal ds < 10 ^ length ds"
  using radix_value_bound [OF assms] by (simp add: decimal_def)

lemma js_slice_take_drop:
  "0 \<le> a \<Longrightarrow> a \<le> b \<Longrightarrow> nat b \<le> length xs \<Longrightarrow> js_slice xs a b = take (nat b - nat a) (drop (nat a) xs)"
  by (simp add: js_slice_def slice_index_def Let_def min_def)

lemma slice_digits:
  assumes "list_all is_digit (take 8 n)" "8 \<le> length n" "0 \<le> a" "a \<le> b" "b \<le> 8"
  shows "list_all is_digit (js_slice n a b) \<and> length (js_slice n a b) = nat b - nat a"
proof -
  have eq: "js_slice n a b = take (nat b - nat a) (drop (nat a) n)"
    using assms by (intro js_slice_take_drop) simp_all
  have "set (take (nat b - nat a) (drop (nat a) n)) \<subseteq> set (take 8 n)"
  proof
    fix x assume "x \<in> set (take (nat b - nat a) (drop (nat a) n))"
    then obtain i where i: "i < nat b - nat a" "i < length (drop (nat a) n)"
      "x = drop (nat a) n ! i" by (auto simp: in_set_conv_nth)
    then have "x = n ! (nat a + i)" by simp
    moreover have "nat a + i < 8" using i(1) assms by linarith
    moreover have "nat a + i < length n" using i(2) by simp
    ultimately have "x = take 8 n ! (nat a + i)" "nat a + i < length (take 8 n)" by simp_all
    then show "x \<in> set (take 8 n)" by (metis nth_mem)
  qed
  then have "list_all is_digit (take (nat b - nat a) (drop (nat a) n))"
    using assms(1) by (auto simp: list_all_iff)
  moreover have "length (take (nat b - nat a) (drop (nat a) n)) = nat b - nat a"
    using assms by simp
  ultimately show ?thesis by (simp add: eq)
qed

lemma calculateDate_digits:
  assumes dg: "list_all is_digit (take 8 n)" and len: "8 \<le> length n"
    and ys: "ys = js_slice n ya yb" "0 \<le> ya" "yb = ya + 4" "yb \<le> 8"
    and ms: "ms = js_slice n ma mb" "0 \<le> ma" "mb = ma + 2" "mb \<le> 8"
    and ds: "ds = js_slice n da db" "0 \<le> da" "db = da + 2" "db \<le> 8"
  shows "new_Date (JStr ys) (JNum (js_minus (parseInt ms) (Fin 1))) (JStr ds)
           = new_Date (JNum (Fin (decimal ys))) (JNum (Fin (decimal ms - 1))) (JNum (Fin (decimal ds)))
         \<and> \<not> js_isNaN (getTime (new_Date (JNum (Fin (decimal ys))) (JNum (Fin (decimal ms - 1))) (JNum (Fin (decimal ds)))))"
proof -
  have y: "list_all is_digit ys" "length ys = 4"
    using slice_digits [OF dg len, of ya yb] ys by simp_all
  have m: "list_all is_digit ms" "length ms = 2"
    using slice_digits [OF dg len, of ma mb] ms by simp_all
  have d: "list_all is_digit ds" "length ds = 2"
    using slice_digits [OF dg len, of da db] ds by simp_all
  have ne: "ys \<noteq> []" "ms \<noteq> []" "ds \<noteq> []" using y m d by auto
  have 1: "StringToNumber ys = Fin (decimal ys)"
    using ne y by (intro StringToNumber_digits) simp_all
  have 2: "parseInt ms = Fin (decimal ms)" using ne m by (intro parseInt_digits) simp_all
  have 3: "StringToNumber ds = Fin (decimal ds)"
    using ne d by (intro StringToNumber_digits) simp_all
  have ry: "0 \<le> decimal ys" "decimal ys < 10000" using decimal_range [OF y(1)] y(2) by simp_all
  have rm: "0 \<le> decimal ms" "decimal ms < 100" using decimal_range [OF m(1)] m(2) by simp_all
  have rd: "0 \<le> decimal ds" "decimal ds < 100" using decimal_range [OF d(1)] d(2) by simp_all
  have fin: "\<not> js_isNaN (getTime (new_Date (JNum (Fin (decimal ys))) (JNum (Fin (decimal ms - 1))) (JNum (Fin (decimal ds)))))"
    using ry rm rd by (intro new_Date_finite) simp_all
  have "new_Date (JStr ys) (JNum (js_minus (parseInt ms) (Fin 1))) (JStr ds)
      = new_Date (JNum (Fin (decimal ys))) (JNum (Fin (decimal ms - 1))) (JNum (Fin (decimal ds)))"
    by (simp add: new_Date_def 1 2 3)
  with fin show ?thesis by simp
qed

lemma new_Date_NaN:
  "ToNumber y = NaN \<or> ToNumber m = NaN \<or> ToNumber d = NaN
     \<Longrightarrow> getTime (new_Date y m d) = NaN"
  by (auto simp: new_Date_def MakeDay_def MakeDate_def TimeClip_def Let_def
      split: jsnum.splits)

text \<open>
  C5, against it: the digits \<open>13/01/2022\<close> are no calendar date, and the promise is
  fulfilled, with the first of January 2023.
\<close>

theorem calculateDate_month_13_resolves:
  "decimal (js_slice ''13012022132649'' 0 2) = 13
   \<and> decimal (js_slice ''13012022132649'' 2 4) = 1
   \<and> decimal (js_slice ''13012022132649'' 4 8) = 2022
   \<and> \<not> valid_calendar_date 2022 13 1
   \<and> calculateDate ''13012022132649''
       = Fulfilled (new_Date (JNum (Fin 2023)) (JNum (Fin 0)) (JNum (Fin 1)))"
  by code_simp

text \<open>
  C5 as the code has it, for \<open>calculateDate\<close> of the S3 connector. The two names of the
  specification give the dates that \<open>new Date(2022, 2, 24)\<close> and
  \<open>new Date(2022, 4, 2)\<close> construct (months count from 0), at local midnight. A name of
  any length other than 14 and 35 is rejected with the message about its length. A name
  of length 14 is read as month, day, year, one of length 35 as year, month, day; the
  promise is rejected with \<open>Error('Invalid date')\<close> when the time value of
  \<open>new Date(year, parseInt(month) - 1, day)\<close> is \<open>NaN\<close>, and fulfilled with that date
  otherwise. It is rejected in particular when \<open>parseInt\<close> of the month, or the day or the
  year as a number, is \<open>NaN\<close>, as for \<open>ab242022132649\<close>. When the first eight
  characters are digits it is fulfilled with \<open>new Date(year, month - 1, day)\<close> whatever the
  digits are: the constructor carries a month or a day outside the calendar into the
  next or the previous month or year.
\<close>

theorem calculateDate_by_length:
  "calculateDate ''03242022132649''
     = Fulfilled (new_Date (JNum (Fin 2022)) (JNum (Fin 2)) (JNum (Fin 24)))
   \<and> new_Date (JNum (Fin 2022)) (JNum (Fin 2)) (JNum (Fin 24)) = Date (Fin 1648080000000)
   \<and> calculateDate ''20220502230023-47180780406793064490''
       = Fulfilled (new_Date (JNum (Fin 2022)) (JNum (Fin 4)) (JNum (Fin 2)))
   \<and> (length n \<noteq> 14 \<and> length n \<noteq> 35 \<longrightarrow>
        calculateDate n = RejectedWith (RejectString
           (''calculateDate Error: Invalid backup name length for backup '' @ n)))
   \<and> (length n = 14 \<and> list_all is_digit (take 8 n) \<longrightarrow>
        calculateDate n = Fulfilled (new_Date (JNum (Fin (decimal (js_slice n 4 8))))
           (JNum (Fin (decimal (js_slice n 0 2) - 1))) (JNum (Fin (decimal (js_slice n 2 4))))))
   \<and> (length n = 35 \<and> list_all is_digit (take 8 n) \<longrightarrow>
        calculateDate n = Fulfilled (new_Date (JNum (Fin (decimal (js_slice n 0 4))))
           (JNum (Fin (decimal (js_slice n 4 6) - 1))) (JNum (Fin (decimal (js_slice n 6 8))))))
   \<and> calculateDate ''ab242022132649'' = RejectedWith (Error ''Invalid date'')
   \<and> (length n = 14 \<longrightarrow>
        calculateDate n =
          (if js_isNaN (getTime (new_Date (JStr (js_slice n 4 8))
                 (JNum (js_minus (parseInt (js_slice n 0 2)) (Fin 1))) (JStr (js_slice n 2 4))))
           then RejectedWith (Error ''Invalid date'')
           else Fulfilled (new_Date (JStr (js_slice n 4 8))
                  (JNum (js_minus (parseInt (js_slice n 0 2)) (Fin 1)))
                  (JStr (js_slice n 2 4)))))
   \<and> (length n = 35 \<longrightarrow>
        calculateDate n =
          (if js_isNaN (getTime (new_Date (JStr (js_slice n 0 4))
                 (JNum (js_minus (parseInt (js_slice n 4 6)) (Fin 1))) (JStr (js_slice n 6 8))))
           then RejectedWith (Error ''Invalid date'')
           else Fulfilled (new_Date (JStr (js_slice n 0 4))
                  (JNum (js_minus (parseInt (js_slice n 4 6)) (Fin 1)))
                  (JStr (js_slice n 6 8)))))
   \<and> (length n = 14
        \<and> (parseInt (js_slice n 0 2) = NaN \<or> StringToNumber (js_slice n 2 4) = NaN
             \<or> StringToNumber (js_slice n 4 8) = NaN) \<longrightarrow>
        calculateDate n = RejectedWith (Error ''Invalid date''))
   \<and> (length n = 35
        \<and> (parseInt (js_slice n 4 6) = NaN \<or> StringToNumber (js_slice n 6 8) = NaN
             \<or> StringToNumber (js_slice n 0 4) = NaN) \<longrightarrow>
        calculateDate n = RejectedWith (Error ''Invalid date''))"
proof (intro conjI impI)
  show "calculateDate ''03242022132649''
     = Fulfilled (new_Date (JNum (Fin 2022)) (JNum (Fin 2)) (JNum (Fin 24)))"
    by code_simp
  show "new_Date (JNum (Fin 2022)) (JNum (Fin 2)) (JNum (Fin 24)) = Date (Fin 1648080000000)"
    by code_simp
  show "calculateDate ''20220502230023-47180780406793064490''
       = Fulfilled (new_Date (JNum (Fin 2022)) (JNum (Fin 4)) (JNum (Fin 2)))"
    by code_simp
next
  assume "length n \<noteq> 14 \<and> length n \<noteq> 35"
  then show "calculateDate n = RejectedWith (RejectString
           (''calculateDate Error: Invalid backup name length for backup '' @ n))"
    by (simp add: calculateDate_def settle_def)
next
  assume a: "length n = 14 \<and> list_all is_digit (take 8 n)"
  then have len: "length n = 14" and dg: "list_all is_digit (take 8 n)" by simp_all
  have l8: "8 \<le> length n" using len by simp
  have d: "new_Date (JStr (js_slice n 4 8)) (JNum (js_minus (parseInt (js_slice n 0 2)) (Fin 1)))
             (JStr (js_slice n 2 4))
           = new_Date (JNum (Fin (decimal (js_slice n 4 8))))
               (JNum (Fin (decimal (js_slice n 0 2) - 1))) (JNum (Fin (decimal (js_slice n 2 4))))
         \<and> \<not> js_isNaN (getTime (new_Date (JNum (Fin (decimal (js_slice n 4 8))))
               (JNum (Fin (decimal (js_slice n 0 2) - 1))) (JNum (Fin (decimal (js_slice n 2 4))))))"
    by (rule calculateDate_digits [OF dg l8 refl _ _ _ refl _ _ _ refl]) simp_all
  show "calculateDate n = Fulfilled (new_Date (JNum (Fin (decimal (js_slice n 4 8))))
           (JNum (Fin (decimal (js_slice n 0 2) - 1))) (JNum (Fin (decimal (js_slice n 2 4)))))"
    using d by (simp add: calculateDate_def settle_def len)
next
  assume a: "length n = 35 \<and> list_all is_digit (take 8 n)"
  then have len: "length n = 35" and dg: "list_all is_digit (take 8 n)" by simp_all
  have l8: "8 \<le> length n" using len by simp
  have d: "new_Date (JStr (js_slice n 0 4)) (JNum (js_minus (parseInt (js_slice n 4 6)) (Fin 1)))
             (JStr (js_slice n 6 8))
           = new_Date (JNum (Fin (decimal (js_slice n 0 4))))
               (JNum (Fin (decimal (js_slice n 4 6) - 1))) (JNum (Fin (decimal (js_slice n 6 8))))
         \<and> \<not> js_isNaN (getTime (new_Date (JNum (Fin (decimal (js_slice n 0 4))))
               (JNum (Fin (decimal (js_slice n 4 6) - 1))) (JNum (Fin (decimal (js_slice n 6 8))))))"
    by (rule calculateDate_digits [OF dg l8 refl _ _ _ refl _ _ _ refl]) simp_all
  show "calculateDate n = Fulfilled (new_Date (JNum (Fin (decimal (js_slice n 0 4))))
           (JNum (Fin (decimal (js_slice n 4 6) - 1))) (JNum (Fin (decimal (js_slice n 6 8)))))"
    using d by (simp add: calculateDate_def settle_def len)
next
  show "calculateDate ''ab242022132649'' = RejectedWith (Error ''Invalid date'')"
    by code_simp
next
  assume len: "length n = 14"
  show "calculateDate n =
          (if js_isNaN (getTime (new_Date (JStr (js_slice n 4 8))
                 (JNum (js_minus (parseInt (js_slice n 0 2)) (Fin 1))) (JStr (js_slice n 2 4))))
           then RejectedWith (Error ''Invalid date'')
           else Fulfilled (new_Date (JStr (js_slice n 4 8))
                  (JNum (js_minus (parseInt (js_slice n 0 2)) (Fin 1)))
                  (JStr (js_slice n 2 4))))"
    by (simp add: calculateDate_def settle_def len)
next
  assume len: "length n = 35"
  show "calculateDate n =
          (if js_isNaN (getTime (new_Date (JStr (js_slice n 0 4))
                 (JNum (js_minus (parseInt (js_slice n 4 6)) (Fin 1))) (JStr (js_slice n 6 8))))
           then RejectedWith (Error ''Invalid date'')
           else Fulfilled (new_Date (JStr (js_slice n 0 4))
                  (JNum (js_minus (parseInt (js_slice n 4 6)) (Fin 1)))
                  (JStr (js_slice n 6 8))))"
    by (simp add: calculateDate_def settle_def len)
next
  assume a: "length n = 14
        \<and> (parseInt (js_slice n 0 2) = NaN \<or> StringToNumber (js_slice n 2 4) = NaN
             \<or> StringToNumber (js_slice n 4 8) = NaN)"
  then have len: "length n = 14" by simp
  have "getTime (new_Date (JStr (js_slice n 4 8))
          (JNum (js_minus (parseInt (js_slice n 0 2)) (Fin 1))) (JStr (js_slice n 2 4))) = NaN"
    using a by (intro new_Date_NaN) auto
  then show "calculateDate n = RejectedWith (Error ''Invalid date'')"
    by (simp add: calculateDate_def settle_def len)
next
  assume a: "length n = 35
        \<and> (parseInt (js_slice n 4 6) = NaN \<or> StringToNumber (js_slice n 6 8) = NaN
             \<or> StringToNumber (js_slice n 0 4) = NaN)"
  then have len: "length n = 35" by simp
  have "getTime (new_Date (JStr (js_slice n 0 4))
          (JNum (js_minus (parseInt (js_slice n 4 6)) (Fin 1))) (JStr (js_slice n 6 8))) = NaN"
    using a by (intro new_Date_NaN) auto
  then show "calculateDate n = RejectedWith (Error ''Invalid date'')"
    by (simp add: calculateDate_def settle_def len)
qed

theorem calculateDate_by_length_witness:
  "length ''0324202213264'' \<noteq> 14 \<and> length ''0324202213264'' \<noteq> 35
   \<and> calculateDate ''0324202213264'' = RejectedWith (RejectString
        ''calculateDate Error: Invalid backup name length for backup 0324202213264'')
   \<and> length ''02302022132649'' = 14 \<and> list_all is_digit (take 8 ''02302022132649'')
   \<and> calculateDate ''02302022132649''
        = Fulfilled (new_Date (JNum (Fin 2022)) (JNum (Fin 1)) (JNum (Fin 30)))
   \<and> length ''20221301230023-47180780406793064490'' = 35
   \<and> list_all is_digit (take 8 ''20221301230023-47180780406793064490'')
   \<and> calculateDate ''20221301230023-47180780406793064490''
        = Fulfilled (new_Date (JNum (Fin 2022)) (JNum (Fin 12)) (JNum (Fin 1)))
   \<and> length ''ab242022132649'' = 14 \<and> parseInt (js_slice ''ab242022132649'' 0 2) = NaN
   \<and> calculateDate ''ab242022132649'' = RejectedWith (Error ''Invalid date'')
   \<and> length ''2022052x230023-47180780406793064490'' = 35
   \<and> StringToNumber (js_slice ''2022052x230023-47180780406793064490'' 6 8) = NaN
   \<and> calculateDate ''2022052x230023-47180780406793064490''
        = RejectedWith (Error ''Invalid date'')
   \<and> js_isNaN (getTime (new_Date (JStr (js_slice ''032x2022132649'' 4 8))
        (JNum (js_minus (parseInt (js_slice ''032x2022132649'' 0 2)) (Fin 1)))
        (JStr (js_slice ''032x2022132649'' 2 4))))
   \<and> calculateDate ''032x2022132649'' = RejectedWith (Error ''Invalid date'')
   \<and> \<not> js_isNaN (getTime (new_Date
        (JStr (js_slice ''20220502230023-47180780406793064490'' 0 4))
        (JNum (js_minus (parseInt (js_slice ''20220502230023-47180780406793064490'' 4 6))
           (Fin 1)))
        (JStr (js_slice ''20220502230023-47180780406793064490'' 6 8))))
   \<and> calculateDate ''20220502230023-47180780406793064490''
        = Fulfilled (new_Date
            (JStr (js_slice ''20220502230023-47180780406793064490'' 0 4))
            (JNum (js_minus (parseInt (js_slice ''20220502230023-47180780406793064490'' 4 6))
               (Fin 1)))
            (JStr (js_slice ''20220502230023-47180780406793064490'' 6 8)))"
proof -
  have a: "length ''0324202213264'' \<noteq> 14 \<and> length ''0324202213264'' \<noteq> 35" by simp
  have b: "length ''02302022132649'' = 14 \<and> list_all is_digit (take 8 ''02302022132649'')"
    by code_simp
  have c: "length ''20221301230023-47180780406793064490'' = 35
      \<and> list_all is_digit (take 8 ''20221301230023-47180780406793064490'')"
    by code_simp
  have d: "decimal (js_slice ''02302022132649'' 4 8) = 2022"
    "decimal (js_slice ''02302022132649'' 0 2) - 1 = 1"
    "decimal (js_slice ''02302022132649'' 2 4) = 30"
    "decimal (js_slice ''20221301230023-47180780406793064490'' 0 4) = 2022"
    "decimal (js_slice ''20221301230023-47180780406793064490'' 4 6) - 1 = 12"
    "decimal (js_slice ''20221301230023-47180780406793064490'' 6 8) = 1"
    by code_simp+
  from calculateDate_by_length [of "''0324202213264''"] a
  have 1: "calculateDate ''0324202213264'' = RejectedWith (RejectString
        ''calculateDate Error: Invalid backup name length for backup 0324202213264'')"
    by simp
  from calculateDate_by_length [of "''02302022132649''"] b
  have 2: "calculateDate ''02302022132649''
        = Fulfilled (new_Date (JNum (Fin 2022)) (JNum (Fin 1)) (JNum (Fin 30)))"
    by (simp only: d)
  from calculateDate_by_length [of "''20221301230023-47180780406793064490''"] c
  have 3: "calculateDate ''20221301230023-47180780406793064490''
        = Fulfilled (new_Date (JNum (Fin 2022)) (JNum (Fin 12)) (JNum (Fin 1)))"
    by (simp only: d)
  have e: "length ''ab242022132649'' = 14" "parseInt (js_slice ''ab242022132649'' 0 2) = NaN"
    by code_simp+
  have f: "length ''2022052x230023-47180780406793064490'' = 35"
    "StringToNumber (js_slice ''2022052x230023-47180780406793064490'' 6 8) = NaN"
    by code_simp+
  have g: "length ''032x2022132649'' = 14"
    "js_isNaN (getTime (new_Date (JStr (js_slice ''032x2022132649'' 4 8))
        (JNum (js_minus (parseInt (js_slice ''032x2022132649'' 0 2)) (Fin 1)))
        (JStr (js_slice ''032x2022132649'' 2 4))))"
    by code_simp+
  have h: "length ''20220502230023-47180780406793064490'' = 35"
    "\<not> js_isNaN (getTime (new_Date
        (JStr (js_slice ''20220502230023-47180780406793064490'' 0 4))
        (JNum (js_minus (parseInt (js_slice ''20220502230023-47180780406793064490'' 4 6))
           (Fin 1)))
        (JStr (js_slice ''20220502230023-47180780406793064490'' 6 8))))"
    by code_simp+
  from calculateDate_by_length [of "''ab242022132649''"] e
  have 4: "calculateDate ''ab242022132649'' = RejectedWith (Error ''Invalid date'')"
    by blast
  from calculateDate_by_length [of "''2022052x230023-47180780406793064490''"] f
  have 5: "calculateDate ''2022052x230023-47180780406793064490''
        = RejectedWith (Error ''Invalid date'')"
    by blast
  from calculateDate_by_length [of "''032x2022132649''"] g(1)
  have "calculateDate ''032x2022132649'' =
          (if js_isNaN (getTime (new_Date (JStr (js_slice ''032x2022132649'' 4 8))
                 (JNum (js_minus (parseInt (js_slice ''032x2022132649'' 0 2)) (Fin 1)))
                 (JStr (js_slice ''032x2022132649'' 2 4))))
           then RejectedWith (Error ''Invalid date'')
           else Fulfilled (new_Date (JStr (js_slice ''032x2022132649'' 4 8))
                  (JNum (js_minus (parseInt (js_slice ''032x2022132649'' 0 2)) (Fin 1)))
                  (JStr (js_slice ''032x2022132649'' 2 4))))"
    by blast
  with g(2) have 6: "calculateDate ''032x2022132649'' = RejectedWith (Error ''Invalid date'')"
    by (simp only: if_True)
  from calculateDate_by_length [of "''20220502230023-47180780406793064490''"] h(1)
  have "calculateDate ''20220502230023-47180780406793064490'' =
          (if js_isNaN (getTime (new_Date
                 (JStr (js_slice ''20220502230023-47180780406793064490'' 0 4))
                 (JNum (js_minus
                    (parseInt (js_slice ''20220502230023-47180780406793064490'' 4 6)) (Fin 1)))
                 (JStr (js_slice ''20220502230023-47180780406793064490'' 6 8))))
           then RejectedWith (Error ''Invalid date'')
           else Fulfilled (new_Date
                  (JStr (js_slice ''20220502230023-47180780406793064490'' 0 4))
                  (JNum (js_minus
                     (parseInt (js_slice ''20220502230023-47180780406793064490'' 4 6)) (Fin 1)))
                  (JStr (js_slice ''20220502230023-47180780406793064490'' 6 8))))"
    by blast
  with h(2) have 7: "calculateDate ''20220502230023-47180780406793064490''
        = Fulfilled (new_Date
            (JStr (js_slice ''20220502230023-47180780406793064490'' 0 4))
            (JNum (js_minus (parseInt (js_slice ''20220502230023-47180780406793064490'' 4 6))
               (Fin 1)))
            (JStr (js_slice ''20220502230023-47180780406793064490'' 6 8)))"
    by (simp only: if_False)
  from a b c 1 2 3 e f g h 4 5 6 7 show ?thesis by blast
qed

section \<open>Properties of \<open>deleteAll\<close>\<close>

text \<open>
  When the queue drains, every task has been counted once: as deleted or as failed.
\<close>

lemma queue_worker_counts:
  "fst (queue_worker d acc task) + length (snd (queue_worker d acc task))
     = Suc (fst acc + length (snd acc))"
  by (simp add: queue_worker_def split: sum.splits)

lemma foldl_queue_counts:
  "fst (foldl (queue_worker d) acc items) + length (snd (foldl (queue_worker d) acc items))
     = fst acc + length (snd acc) + length items"
  by (induction items arbitrary: acc) (simp_all add: queue_worker_counts)

lemma run_queue_counts:
  "fst (run_queue d items) + length (snd (run_queue d items)) = length items"
  by (simp add: run_queue_def foldl_queue_counts)

text \<open>
  With a failed item, the last statement of the drain callback throws before it calls
  \<open>reject\<close>; when the folder is not the root there is no other call that settles the
  promise.
\<close>

lemma drain_report_failed:
  "failed \<noteq> [] \<Longrightarrow>
     drain_report bucketName folder deleted failed
       = ([], [TypeError ''failedItems.substring is not a function''])"
  by (simp add: drain_report_def)

lemma s3_drain_failed_pending:
  "failed \<noteq> [] \<Longrightarrow> folder \<noteq> [] \<Longrightarrow>
     result (s3_drain p bucketName folder creds deleted failed) = Pending"
  by (simp add: s3_drain_def drain_report_failed settle_def)

lemma gcs_drain_failed_pending:
  "failed \<noteq> [] \<Longrightarrow> folder \<noteq> [] \<Longrightarrow>
     result (gcs_drain p bucketName folder deleted failed) = Pending"
  by (simp add: gcs_drain_def drain_report_failed settle_def)

text \<open>
  C3, at a listing of one object version (\<open>K = 1\<close>) and one delete marker (\<open>M = 1\<close>)
  under \<open>backups/b1\<close>, where the deletion of the marker fails. The accumulators hold one
  deleted and one failed item when the queue drains, but nothing is reported: the drain
  callback throws the \<open>TypeError\<close> of \<open>failedItems.substring\<close> before \<open>reject\<close>, and the
  promise of \<open>deleteAll\<close> is never settled.
\<close>

theorem s3_deleteAll_failure_reports_nothing:
  "s3_listFileVersions (listSend refuses_marker) ''inst'' ''backups/b1'' own_bucket
     = Some (Fulfilled \<lparr>ret_Versions = [version_a], ret_DeleteMarkers = [marker_c]\<rparr>)
   \<and> itemsDeletedCount (s3_deleteAll refuses_marker ''inst'' ''backups/b1'' own_bucket) = 1
   \<and> failedItems (s3_deleteAll refuses_marker ''inst'' ''backups/b1'' own_bucket)
       = [FailedItem ''inst'' ''backups/b1/c'' (JStr ''v2'') (ProviderError ''AccessDenied'')]
   \<and> uncaught (s3_deleteAll refuses_marker ''inst'' ''backups/b1'' own_bucket)
       = [TypeError ''failedItems.substring is not a function'']
   \<and> result (s3_deleteAll refuses_marker ''inst'' ''backups/b1'' own_bucket) = Pending"
  by code_simp

text \<open>
  C4, at a GCS listing of two files under \<open>backups/b1\<close>, where the deletion of the second
  fails. The batch is not aborted (the first file is deleted, the failure recorded), but
  the promise of \<open>deleteAll\<close> is neither rejected with the aggregate error nor resolved:
  the \<open>TypeError\<close> of \<open>failedItems.substring\<close> ends the drain callback first.
\<close>

theorem gcs_deleteAll_failure_never_rejects:
  "itemsDeletedCount
     (gcs_deleteAll
        (gcs_bucket_with [GcsFile ''backups/b1/a'' 1, GcsFile ''backups/b1/c'' 2] []
           [''backups/b1/c''])
        ''inst'' ''backups/b1'' own_bucket) = 1
   \<and> failedItems
     (gcs_deleteAll
        (gcs_bucket_with [GcsFile ''backups/b1/a'' 1, GcsFile ''backups/b1/c'' 2] []
           [''backups/b1/c''])
        ''inst'' ''backups/b1'' own_bucket)
       = [FailedItem ''inst'' ''backups/b1/c'' (JNum (Fin 2)) (ProviderError ''Forbidden'')]
   \<and> uncaught
     (gcs_deleteAll
        (gcs_bucket_with [GcsFile ''backups/b1/a'' 1, GcsFile ''backups/b1/c'' 2] []
           [''backups/b1/c''])
        ''inst'' ''backups/b1'' own_bucket)
       = [TypeError ''failedItems.substring is not a function'']
   \<and> result
     (gcs_deleteAll
        (gcs_bucket_with [GcsFile ''backups/b1/a'' 1, GcsFile ''backups/b1/c'' 2] []
           [''backups/b1/c''])
        ''inst'' ''backups/b1'' own_bucket) = Pending"
  by code_simp

text \<open>
  C9, against it: the GCS connector never looks at the credentials. With the
  credentials of a shared bucket, an empty folder and an empty re-listing, it deletes
  the bucket named after the installation.
\<close>

theorem gcs_deleteAll_shared_bucket_deleted:
  "cred_bucket shared_bucket = Some (JStr ''shared'')
   \<and> bucketDeletions
       (gcs_deleteAll (gcs_bucket_with [GcsFile ''a'' 1] [] []) ''inst'' [] shared_bucket)
       = [''inst'']"
  by code_simp

text \<open>
  C9 as the code has it. The S3 connector sends exactly one \<open>DeleteBucketCommand\<close> when
  the listing succeeded (so that the queue drained), the folder is empty, the
  credentials name no shared bucket and the re-listing of the root succeeds with no
  version and no delete marker; in every other case it sends none. The GCS connector
  has no shared-bucket layout: it calls \<open>bucket.delete\<close> once when the listing succeeded,
  the folder is empty and the re-listing of the root succeeds with no file, whatever
  the credentials are, and not at all otherwise.
\<close>

theorem bucket_deleted_iff_root_empty:
  "bucketDeletions (s3_deleteAll p bucketName folder creds) =
     (if (\<exists>files. s3_listFileVersions (listSend p) bucketName folder creds
                     = Some (Fulfilled files))
         \<and> folder = [] \<and> cred_bucket creds = None
         \<and> (\<exists>remainingFiles.
               s3_listFileVersions (relistSend p) bucketName [] creds
                 = Some (Fulfilled remainingFiles)
               \<and> ret_Versions remainingFiles = [] \<and> ret_DeleteMarkers remainingFiles = [])
      then [bucketName] else [])
   \<and> bucketDeletions (gcs_deleteAll g bucketName folder creds) =
     (if (\<exists>files. gcs_listFileVersions (gcs_exists g) (gcs_getFiles g) bucketName folder
                     = Fulfilled files)
         \<and> folder = []
         \<and> gcs_listFileVersions (gcs_exists g) (gcs_getFiles_after g) bucketName []
             = Fulfilled []
      then [bucketName] else [])"
proof
  show "bucketDeletions (s3_deleteAll p bucketName folder creds) =
     (if (\<exists>files. s3_listFileVersions (listSend p) bucketName folder creds
                     = Some (Fulfilled files))
         \<and> folder = [] \<and> cred_bucket creds = None
         \<and> (\<exists>remainingFiles.
               s3_listFileVersions (relistSend p) bucketName [] creds
                 = Some (Fulfilled remainingFiles)
               \<and> ret_Versions remainingFiles = [] \<and> ret_DeleteMarkers remainingFiles = [])
      then [bucketName] else [])"
    by (auto simp: s3_deleteAll_def s3_drain_def not_started_def Let_def
        split: option.splits promise.splits)
  show "bucketDeletions (gcs_deleteAll g bucketName folder creds) =
     (if (\<exists>files. gcs_listFileVersions (gcs_exists g) (gcs_getFiles g) bucketName folder
                     = Fulfilled files)
         \<and> folder = []
         \<and> gcs_listFileVersions (gcs_exists g) (gcs_getFiles_after g) bucketName []
             = Fulfilled []
      then [bucketName] else [])"
    by (auto simp: gcs_deleteAll_def gcs_drain_def not_started_def Let_def
        split: option.splits promise.splits)
qed

section \<open>Properties of the dispatcher\<close>

lemma switch_provider_unsupported:
  assumes "\<not> (prv = ''google'' \<and> prd = ''storage'')" "\<not> (prv = ''amazon'' \<and> prd = ''s3'')"
  shows "switch_provider googleMethod method prv prd gcs s3
     = RejectedWith (Error ((if prv = ''google'' then googleMethod else method)
         @ '' error: method does not currently support '' @ prv @ [CHR 0x27] @ ''s '' @ prd))"
  using assms by (auto simp: switch_provider_def unsupported_def)

text \<open>
  C6. For a filesource whose provider and product are neither \<open>google\<close>/\<open>storage\<close> nor
  \<open>amazon\<close>/\<open>s3\<close>, each of the six operations is rejected with an \<open>Error\<close> whose message
  ends with the provider, \<open>'s\<close> and the product; the result does not depend on what
  either connector would answer, so none is called.
\<close>

theorem dispatcher_rejects_unsupported:
  assumes "\<not> (provider i = ''google'' \<and> product i = ''storage'')"
    and "\<not> (provider i = ''amazon'' \<and> product i = ''s3'')"
  shows "files_listFileVersions (Inr i) gcsA sA
       = RejectedWith (Error ((if provider i = ''google'' then ''listFiles'' else ''listFileVersions'')
           @ '' error: method does not currently support '' @ provider i @ [CHR 0x27] @ ''s ''
           @ product i))
    \<and> files_listBackups (Inr i) gcsB sB
       = RejectedWith (Error ((if provider i = ''google'' then ''listFiles'' else ''listBackups'')
           @ '' error: method does not currently support '' @ provider i @ [CHR 0x27] @ ''s ''
           @ product i))
    \<and> files_calculateDate (Inr i) gcsC sC
       = RejectedWith (Error (''calculateDate''
           @ '' error: method does not currently support '' @ provider i @ [CHR 0x27] @ ''s ''
           @ product i))
    \<and> files_deleteObjectVersion (Inr i) gcsD sD
       = RejectedWith (Error (''deleteObjectVersion''
           @ '' error: method does not currently support '' @ provider i @ [CHR 0x27] @ ''s ''
           @ product i))
    \<and> files_deleteAll (Inr i) gcsE sE
       = RejectedWith (Error (''deleteAll''
           @ '' error: method does not currently support '' @ provider i @ [CHR 0x27] @ ''s ''
           @ product i))
    \<and> files_transferBackupFiles (provider i) (product i) gcsF sF
       = RejectedWith (Error (''transferBackupFiles''
           @ '' error: method does not currently support '' @ provider i @ [CHR 0x27] @ ''s ''
           @ product i))"
  unfolding files_listFileVersions_def files_listBackups_def files_calculateDate_def
    files_deleteObjectVersion_def files_deleteAll_def files_transferBackupFiles_def
  by (simp add: switch_provider_unsupported [OF assms])

theorem dispatcher_rejects_unsupported_witness:
  "\<not> (provider azure_blob = ''google'' \<and> product azure_blob = ''storage'')
   \<and> \<not> (provider azure_blob = ''amazon'' \<and> product azure_blob = ''s3'')
   \<and> files_deleteAll (Inr azure_blob) (\<lambda>c. Fulfilled ''gcs'') (\<lambda>c. Fulfilled ''s3'')
       = RejectedWith (Error ''deleteAll error: method does not currently support azure's blob'')
   \<and> files_listFileVersions (Inr azure_blob) (\<lambda>c. Fulfilled ''gcs'') (\<lambda>c. Fulfilled ''s3'')
       = RejectedWith
           (Error ''listFileVersions error: method does not currently support azure's blob'')"
proof -
  have h1: "\<not> (provider azure_blob = ''google'' \<and> product azure_blob = ''storage'')"
    by (simp add: azure_blob_def)
  have h2: "\<not> (provider azure_blob = ''amazon'' \<and> product azure_blob = ''s3'')"
    by (simp add: azure_blob_def)
  have p: "provider azure_blob = ''azure''" "product azure_blob = ''blob''"
    by (simp_all add: azure_blob_def)
  note t = dispatcher_rejects_unsupported [OF h1 h2,
      where gcsA = "\<lambda>c. Fulfilled ''gcs''" and sA = "\<lambda>c. Fulfilled ''s3''"
        and gcsE = "\<lambda>c. Fulfilled ''gcs''" and sE = "\<lambda>c. Fulfilled ''s3''"]
  have a: "files_listFileVersions (Inr azure_blob) (\<lambda>c. Fulfilled ''gcs'') (\<lambda>c. Fulfilled ''s3'')
       = RejectedWith
           (Error ''listFileVersions error: method does not currently support azure's blob'')"
    using t [THEN conjunct1] by (simp add: p)
  have e: "files_deleteAll (Inr azure_blob) (\<lambda>c. Fulfilled ''gcs'') (\<lambda>c. Fulfilled ''s3'')
       = RejectedWith (Error ''deleteAll error: method does not currently support azure's blob'')"
    using t [THEN conjunct2, THEN conjunct2, THEN conjunct2, THEN conjunct2, THEN conjunct1]
    by (simp add: p)
  from h1 h2 a e show ?thesis by blast
qed

section \<open>Properties of the S3 listing\<close>

text \<open>
  C7, at a provider that answers in two pages, the first one truncated and holding a
  delete marker but no \<open>Versions\<close> property. The guard \<open>hasOwnProperty\<close> protects the
  accumulation, not the cursor: \<open>response.Versions.slice\<close> throws, the \<open>catch\<close> rejects, the
  second page is never asked for and nothing is listed.
\<close>

theorem listFileVersions_markers_only_page_rejects:
  "markers_page_first 0 \<lparr>Bucket = JStr ''inst'', Prefix = ''backups/b1'', KeyMarker = None\<rparr>
     = Inr \<lparr>Versions = None, DeleteMarkers = Some [marker_c], IsTruncated = True\<rparr>
   \<and> s3_listFileVersions markers_page_first ''inst'' ''backups/b1'' own_bucket
       = Some (RejectedWith
                 (TypeError ''Cannot read properties of undefined (reading 'slice')''))"
  by code_simp

text \<open>
  What does hold: when every truncated page carries at least one version, the loop asks
  for every page and the listing is the concatenation of the pages.
\<close>

lemma listLoop_drains_pages:
  assumes "n < length pages"
    and "\<And>i. n \<le> i \<Longrightarrow> Suc i < length pages \<Longrightarrow>
           IsTruncated (pages ! i) \<and> page_versions (pages ! i) \<noteq> []"
    and "\<not> IsTruncated (last pages)"
  shows "listLoop (pages_in_order pages) n params acc
     = Some (Fulfilled
         \<lparr>ret_Versions = ret_Versions acc @ concat (map page_versions (drop n pages)),
          ret_DeleteMarkers = ret_DeleteMarkers acc @ concat (map page_markers (drop n pages))\<rparr>)"
  using assms
proof (induction "length pages - n" arbitrary: n params acc)
  case 0
  then show ?case by simp
next
  case (Suc k)
  have send: "pages_in_order pages n params = Inr (pages ! n)"
    using Suc.prems(1) by (simp add: pages_in_order_def)
  have dr: "drop n pages = pages ! n # drop (Suc n) pages"
    using Suc.prems(1) by (simp add: Cons_nth_drop_Suc)
  show ?case
  proof (cases "Suc n < length pages")
    case False
    then have "n = length pages - 1" using Suc.prems(1) by simp
    moreover have "pages \<noteq> []" using Suc.prems(1) by auto
    ultimately have lst: "pages ! n = last pages"
      by (simp add: last_conv_nth)
    have nil: "drop (Suc n) pages = []" using False by simp
    show ?thesis
      using Suc.prems(3)
      by (subst listLoop.simps)
        (simp add: send dr nil lst [symmetric] page_versions_def page_markers_def
          split: option.splits)
  next
    case True
    from Suc.prems(2) [OF le_refl True]
    have tr: "IsTruncated (pages ! n)" and ne: "page_versions (pages ! n) \<noteq> []" by simp_all
    from ne obtain vs where vs: "Versions (pages ! n) = Some vs" "vs \<noteq> []"
      by (auto simp: page_versions_def split: option.splits)
    have k: "k = length pages - Suc n" using Suc.hyps(2) by simp
    have rest: "\<And>i. Suc n \<le> i \<Longrightarrow> Suc i < length pages \<Longrightarrow>
        IsTruncated (pages ! i) \<and> page_versions (pages ! i) \<noteq> []"
      using Suc.prems(2) by simp
    note ih = Suc.hyps(1) [OF k True rest Suc.prems(3)]
    show ?thesis
      by (subst listLoop.simps)
        (simp add: send tr vs ih dr page_versions_def page_markers_def split: option.splits)
  qed
qed

lemma listFileVersions_drains_pages:
  assumes "pages \<noteq> []"
    and "\<And>i. Suc i < length pages \<Longrightarrow>
           IsTruncated (pages ! i) \<and> page_versions (pages ! i) \<noteq> []"
    and "\<not> IsTruncated (last pages)"
  shows "s3_listFileVersions (pages_in_order pages) bucketName folder creds
     = Some (Fulfilled
         \<lparr>ret_Versions = concat (map page_versions pages),
          ret_DeleteMarkers = concat (map page_markers pages)\<rparr>)"
proof -
  have n: "0 < length pages" using assms(1) by simp
  show ?thesis
    unfolding s3_listFileVersions_def
    by (subst listLoop_drains_pages [OF n _ assms(3)]) (simp_all add: assms(2))
qed

section \<open>Properties of the transfer\<close>

text \<open>The S3 connector copies the entries flagged latest, in the order of the manifest.\<close>

lemma s3_transfer_latest_only:
  "s3_transferBackupFiles src srcCreds dst dstCreds publicVersions privateVersions
     = map (s3_copyParameters src srcCreds dst dstCreds)
         (filter IsLatest (publicVersions @ privateVersions))"
  by (simp add: s3_transferBackupFiles_def)

text \<open>
  C8, at a GCS manifest with a file named \<open>constructor\<close>. \<^verbatim>\<open>filePath in compareObject\<close> is
  true for that name before any entry is recorded, because every object inherits a
  property of that name; the comparison with the inherited value is false, so the
  path is never recorded and no copy command is pushed for it: the current version of
  the file is not transferred.
\<close>

theorem gcs_transfer_drops_inherited_name:
  "gcs_transferBackupFiles (\<lambda>bucket. (None, True)) ''src'' ''dst''
       [GcsFile ''constructor'' 5] []
     = (Fulfilled (), [])
   \<and> gcs_transferBackupFiles (\<lambda>bucket. (None, True)) ''src'' ''dst''
       [GcsFile ''a'' 3, GcsFile ''constructor'' 5, GcsFile ''a'' 7] [GcsFile ''a'' 4]
     = (Fulfilled (), [(''a'', 7)])"
  by code_simp

text \<open>
  What does hold for the GCS connector: the copy commands are exactly the pairs of a
  path that is not the name of an inherited property and the highest generation the
  manifest has for that path, one command per path.
\<close>

lemma map_of_assign: "map_of (assign key v obj) = (map_of obj)(key \<mapsto> v)"
  by (induction obj) (auto simp: fun_eq_iff)

lemma keys_assign: "fst ` set (assign key v obj) = insert key (fst ` set obj)"
proof -
  have "fst ` set (assign key v obj) = dom (map_of (assign key v obj))"
    by (simp add: dom_map_of_conv_image_fst)
  also have "\<dots> = insert key (dom (map_of obj))" by (simp add: map_of_assign)
  finally show ?thesis by (simp add: dom_map_of_conv_image_fst)
qed

lemma distinct_assign: "distinct (map fst obj) \<Longrightarrow> distinct (map fst (assign key v obj))"
  by (induction obj) (auto simp: keys_assign)

lemma own_key_iff: "key \<in> fst ` set obj \<longleftrightarrow> map_of obj key \<noteq> None"
  by (simp add: map_of_eq_None_iff)

lemma map_of_compare_step:
  "map_of (compare_step obj e) =
     (case map_of obj (gcs_name e) of
        Some w \<Rightarrow>
          if w < generation e then (map_of obj)(gcs_name e \<mapsto> generation e) else map_of obj
      | None \<Rightarrow>
          if gcs_name e \<in> set Object_prototype_keys then map_of obj
          else (map_of obj)(gcs_name e \<mapsto> generation e))"
  by (auto simp: compare_step_def js_in_def own_key_iff map_of_assign Let_def
      split: option.splits)

lemma distinct_compare_step:
  "distinct (map fst obj) \<Longrightarrow> distinct (map fst (compare_step obj e))"
  by (simp add: compare_step_def distinct_assign Let_def split: option.splits)

lemma highest_of_snoc_other:
  "gcs_name e \<noteq> key \<Longrightarrow> highest_of (es @ [e]) key v = highest_of es key v"
  by (auto simp: highest_of_def)

lemma highest_of_snoc_higher:
  "highest_of es (gcs_name e) w \<Longrightarrow> w < generation e
     \<Longrightarrow> highest_of (es @ [e]) (gcs_name e) (generation e)"
  by (force simp: highest_of_def)

lemma highest_of_snoc_lower:
  "highest_of es (gcs_name e) w \<Longrightarrow> \<not> w < generation e
     \<Longrightarrow> highest_of (es @ [e]) (gcs_name e) w"
  by (force simp: highest_of_def)

lemma highest_of_snoc_first:
  "\<forall>x \<in> set es. gcs_name x \<noteq> gcs_name e
     \<Longrightarrow> highest_of (es @ [e]) (gcs_name e) (generation e)"
  by (auto simp: highest_of_def)

lemma highest_of_unique: "highest_of es key v \<Longrightarrow> highest_of es key w \<Longrightarrow> v = w"
  by (force simp: highest_of_def)

lemma recorded_step:
  assumes "recorded (map_of obj) es"
  shows "recorded (map_of (compare_step obj e)) (es @ [e])"
proof (cases "map_of obj (gcs_name e)")
  case None
  show ?thesis
  proof (cases "gcs_name e \<in> set Object_prototype_keys")
    case True
    then have m: "map_of (compare_step obj e) = map_of obj"
      using None by (simp add: map_of_compare_step)
    have "\<And>key v. map_of obj key = Some v \<Longrightarrow> gcs_name e \<noteq> key"
      using None by auto
    then show ?thesis
      using assms True unfolding recorded_def m
      by (auto simp: highest_of_snoc_other)
  next
    case False
    then have m: "map_of (compare_step obj e) = (map_of obj)(gcs_name e \<mapsto> generation e)"
      using None by (simp add: map_of_compare_step)
    have fresh: "\<forall>x \<in> set es. gcs_name x \<noteq> gcs_name e"
    proof
      fix x assume x: "x \<in> set es"
      show "gcs_name x \<noteq> gcs_name e"
      proof
        assume eq: "gcs_name x = gcs_name e"
        with False have "gcs_name x \<notin> set Object_prototype_keys" by simp
        with assms x have "map_of obj (gcs_name x) \<noteq> None" by (auto simp: recorded_def)
        with None eq show False by simp
      qed
    qed
    show ?thesis
      using assms False highest_of_snoc_first [OF fresh] unfolding recorded_def m
      by (auto simp: highest_of_snoc_other)
  qed
next
  case (Some w)
  from assms Some have w: "gcs_name e \<notin> set Object_prototype_keys" "highest_of es (gcs_name e) w"
    by (auto simp: recorded_def)
  show ?thesis
  proof (cases "w < generation e")
    case True
    then have m: "map_of (compare_step obj e) = (map_of obj)(gcs_name e \<mapsto> generation e)"
      using Some by (simp add: map_of_compare_step)
    show ?thesis
      using assms w highest_of_snoc_higher [OF w(2) True] unfolding recorded_def m
      by (auto simp: highest_of_snoc_other)
  next
    case False
    then have m: "map_of (compare_step obj e) = map_of obj"
      using Some by (simp add: map_of_compare_step)
    have "\<And>key v. map_of obj key = Some v \<Longrightarrow> highest_of (es @ [e]) key v"
    proof -
      fix key v assume kv: "map_of obj key = Some v"
      show "highest_of (es @ [e]) key v"
      proof (cases "gcs_name e = key")
        case True
        with kv Some have "v = w" by simp
        with highest_of_snoc_lower [OF w(2) False] True show ?thesis by simp
      next
        case False
        with assms kv show ?thesis by (auto simp: recorded_def highest_of_snoc_other)
      qed
    qed
    then show ?thesis
      using assms Some unfolding recorded_def m by auto
  qed
qed

lemma recorded_fold:
  "recorded (map_of (foldl compare_step [] es)) es
   \<and> distinct (map fst (foldl compare_step [] es))"
proof (induction es rule: rev_induct)
  case Nil
  show ?case by (simp add: recorded_def)
next
  case (snoc e es)
  then show ?case by (simp add: recorded_step distinct_compare_step)
qed

lemma set_Object_keys: "set (Object_keys obj) = fst ` set obj"
  by (auto simp: Object_keys_def)

lemma distinct_Object_keys: "distinct (map fst obj) \<Longrightarrow> distinct (Object_keys obj)"
  by (auto simp: Object_keys_def distinct_map_filter)

lemma gcs_copyCommands_highest:
  "(key, v) \<in> set (gcs_copyCommands publicObjects privateObjects)
     \<longleftrightarrow> key \<notin> set Object_prototype_keys \<and> highest_of (publicObjects @ privateObjects) key v"
proof -
  define es where "es = publicObjects @ privateObjects"
  define obj where "obj = foldl compare_step [] es"
  have r: "recorded (map_of obj) es" using recorded_fold [of es] by (simp add: obj_def)
  have "set (gcs_copyCommands publicObjects privateObjects)
      = (\<lambda>k. (k, the (map_of obj k))) ` set (Object_keys obj)"
    by (simp add: gcs_copyCommands_def Let_def es_def obj_def)
  then have "(key, v) \<in> set (gcs_copyCommands publicObjects privateObjects)
      \<longleftrightarrow> key \<in> fst ` set obj \<and> v = the (map_of obj key)"
    unfolding set_Object_keys by blast
  also have "\<dots> \<longleftrightarrow> map_of obj key = Some v"
    unfolding own_key_iff by auto
  finally have cmds: "(key, v) \<in> set (gcs_copyCommands publicObjects privateObjects)
      \<longleftrightarrow> map_of obj key = Some v" .
  show ?thesis
  proof
    assume "(key, v) \<in> set (gcs_copyCommands publicObjects privateObjects)"
    with cmds r show "key \<notin> set Object_prototype_keys
        \<and> highest_of (publicObjects @ privateObjects) key v"
      by (auto simp: recorded_def es_def)
  next
    assume a: "key \<notin> set Object_prototype_keys
        \<and> highest_of (publicObjects @ privateObjects) key v"
    then obtain e where e: "e \<in> set es" "gcs_name e = key"
      by (auto simp: highest_of_def es_def)
    with a r obtain w where w: "map_of obj key = Some w" by (auto simp: recorded_def)
    with r have "highest_of es key w" by (auto simp: recorded_def)
    with a have "v = w" by (auto simp: es_def dest: highest_of_unique)
    with w cmds show "(key, v) \<in> set (gcs_copyCommands publicObjects privateObjects)" by simp
  qed
qed

lemma gcs_copyCommands_one_per_path:
  "distinct (map fst (gcs_copyCommands publicObjects privateObjects))"
proof -
  define obj where "obj = foldl compare_step [] (publicObjects @ privateObjects)"
  have "distinct (map fst obj)"
    unfolding obj_def using recorded_fold [of "publicObjects @ privateObjects"] by blast
  then have "distinct (Object_keys obj)" by (rule distinct_Object_keys)
  moreover have "map fst (gcs_copyCommands publicObjects privateObjects) = Object_keys obj"
    by (simp add: gcs_copyCommands_def Let_def comp_def obj_def)
  ultimately show ?thesis by simp
qed

end
